theory Spec2Isabelle
  imports Complex_Main
begin

section \<open>Machine integers\<close>

text \<open>
  The C++ types \<^verbatim>\<open>int\<close> (32 bits) and \<^verbatim>\<open>int64_t\<close> are modelled as \<^typ>\<open>int\<close> with the
  conversions written out.  A conversion to a narrower signed type keeps the low bits
  (two's complement, as C++20 defines it); a result of an arithmetic operation that does
  not fit its type, a shift by a negative or too large count and a division by zero are
  undefined behaviour, which the operations below report as \<open>None\<close>.
\<close>

definition int32 :: "int \<Rightarrow> bool" where
  "int32 x \<longleftrightarrow> - (2 ^ 31) \<le> x \<and> x < 2 ^ 31"

definition to_int32 :: "int \<Rightarrow> int" where
  "to_int32 x = signed_take_bit 31 x"

definition to_int64 :: "int \<Rightarrow> int" where
  "to_int64 x = signed_take_bit 63 x"

text \<open>Division of C++: the quotient is truncated towards zero.\<close>

definition tdiv :: "int \<Rightarrow> int \<Rightarrow> int" where
  "tdiv a b = sgn a * sgn b * (\<bar>a\<bar> div \<bar>b\<bar>)"

text \<open>
  \<^verbatim>\<open>int64_t(x) << s\<close>: for a count within \<open>0 \<dots> 63\<close> the value \<open>x * 2 ^ s\<close> reduced to 64 bits.
\<close>

definition shl64 :: "int \<Rightarrow> int \<Rightarrow> int option" where
  "shl64 x s = (if s < 0 \<or> 64 \<le> s then None else Some (to_int64 (x * 2 ^ nat s)))"

section \<open>Bungee.h: the data of the grain protocol\<close>

record SampleRates =
  inputRate :: int
  outputRate :: int

record InputChunk =
  chunkBegin :: int
  chunkEnd :: int

section \<open>Timing.cpp\<close>

text \<open>
  Modelled from the spec: \<^verbatim>\<open>log2<true>\<close> of \<^verbatim>\<open>log2.h\<close>, which is not among the sources.  The
  spec reads it as \<open>floor(log2(x))\<close>; lemma \<open>log2_floor_log\<close> below relates the recursion to
  the real logarithm.
\<close>

fun floor_log2 :: "nat \<Rightarrow> nat" where
  "floor_log2 n = (if n < 2 then 0 else Suc (floor_log2 (n div 2)))"

declare floor_log2.simps [simp del]

definition log2 :: "int \<Rightarrow> int" where
  "log2 x = int (floor_log2 (nat x))"

record Timing =
  log2SynthesisHop :: int
  sampleRates :: SampleRates

definition Timing_new :: "SampleRates \<Rightarrow> int \<Rightarrow> Timing" where
  "Timing_new rates log2SynthesisHopAdjust =
     \<lparr>log2SynthesisHop = log2 (inputRate rates) - 6 + log2SynthesisHopAdjust,
      sampleRates = rates\<rparr>"

definition maxPitchOctaves :: int where
  "maxPitchOctaves = 2"

text \<open>
  The two frame-count bounds.  The shift is done on \<^verbatim>\<open>int64_t\<close>, the quotient is incremented
  (undefined when the sum leaves \<^verbatim>\<open>int64_t\<close>) and the sum is converted to \<^verbatim>\<open>int\<close>.  The Boolean
  parameters of the C++ functions are not used by their bodies and are left out.
\<close>

definition maxInputFrameCount :: "Timing \<Rightarrow> int option" where
  "maxInputFrameCount t =
     (case shl64 (inputRate (sampleRates t)) (maxPitchOctaves + log2SynthesisHop t + 3) of
        None \<Rightarrow> None
      | Some shifted \<Rightarrow>
          if outputRate (sampleRates t) = 0 then None
          else let max = tdiv shifted (outputRate (sampleRates t))
               in if 2 ^ 63 \<le> max + 1 then None else Some (to_int32 (max + 1)))"

definition maxOutputFrameCount :: "Timing \<Rightarrow> int option" where
  "maxOutputFrameCount t =
     (case shl64 (outputRate (sampleRates t)) (maxPitchOctaves + log2SynthesisHop t) of
        None \<Rightarrow> None
      | Some shifted \<Rightarrow>
          if inputRate (sampleRates t) = 0 then None
          else let max = tdiv shifted (inputRate (sampleRates t))
               in if 2 ^ 63 \<le> max + 1 then None else Some (to_int32 (max + 1)))"

section \<open>IEEE 754 binary64\<close>

text \<open>
  The C++ type \<^verbatim>\<open>double\<close>.  A finite value is the real number it denotes; the two zeros are
  \<open>Fin 0\<close> and \<open>NZero\<close>.  Every arithmetic operation computes the exact real result and
  rounds it to the nearest representable value, ties to the even significand, which is the
  default rounding mode; NaN payloads are not distinguished.
\<close>

datatype double = NaN | PInf | NInf | NZero | Fin real

fun val :: "double \<Rightarrow> real" where
  "val (Fin x) = x"
| "val _ = 0"

fun isnan :: "double \<Rightarrow> bool" where
  "isnan NaN = True"
| "isnan _ = False"

fun isfinite :: "double \<Rightarrow> bool" where
  "isfinite (Fin x) = True"
| "isfinite NZero = True"
| "isfinite _ = False"

fun signbit :: "double \<Rightarrow> bool" where
  "signbit NInf = True"
| "signbit NZero = True"
| "signbit (Fin x) = (x < 0)"
| "signbit _ = False"

definition ceil_log2 :: "nat \<Rightarrow> nat" where
  "ceil_log2 n = (if n \<le> 1 then 0 else Suc (floor_log2 (n - 1)))"

text \<open>The exponent of the binade of a real number: \<open>2 powi binade x \<le> \<bar>x\<bar> < 2 powi (binade x + 1)\<close>.\<close>

definition binade :: "real \<Rightarrow> int" where
  "binade x =
     (if 1 \<le> \<bar>x\<bar> then int (floor_log2 (nat \<lfloor>\<bar>x\<bar>\<rfloor>))
      else - int (ceil_log2 (nat \<lceil>1 / \<bar>x\<bar>\<rceil>)))"

definition roundEven :: "real \<Rightarrow> int" where
  "roundEven y =
     (let f = \<lfloor>y\<rfloor>; d = y - of_int f
      in if d < 1 / 2 then f else if 1 / 2 < d then f + 1 else if even f then f else f + 1)"

text \<open>
  Rounding to binary64: 53 significant bits, the least exponent of a normal number is
  \<open>-1022\<close> (below it the spacing stays \<open>2 powi -1074\<close>), and a rounded magnitude of
  \<open>2 ^ 1024\<close> or more overflows to an infinity.  A negative number that rounds to zero gives
  the negative zero.
\<close>

definition rnd :: "real \<Rightarrow> double" where
  "rnd x =
     (let e = max (binade x) (- 1022) - 52;
          r = of_int (roundEven (x / 2 powi e)) * 2 powi e
      in if 2 ^ 1024 \<le> \<bar>r\<bar> then (if 0 < x then PInf else NInf)
         else if r = 0 \<and> x < 0 then NZero
         else Fin r)"

text \<open>A value of the datatype is a \<^verbatim>\<open>double\<close> when rounding leaves it as it is.\<close>

fun is_double :: "double \<Rightarrow> bool" where
  "is_double (Fin x) = (rnd x = Fin x)"
| "is_double _ = True"

fun dneg :: "double \<Rightarrow> double" where
  "dneg NaN = NaN"
| "dneg PInf = NInf"
| "dneg NInf = PInf"
| "dneg NZero = Fin 0"
| "dneg (Fin x) = (if x = 0 then NZero else Fin (- x))"

fun dadd :: "double \<Rightarrow> double \<Rightarrow> double" where
  "dadd NaN b = NaN"
| "dadd a NaN = NaN"
| "dadd PInf NInf = NaN"
| "dadd NInf PInf = NaN"
| "dadd PInf b = PInf"
| "dadd a PInf = PInf"
| "dadd NInf b = NInf"
| "dadd a NInf = NInf"
| "dadd NZero NZero = NZero"
| "dadd a b = rnd (val a + val b)"

definition dsub :: "double \<Rightarrow> double \<Rightarrow> double" where
  "dsub a b = dadd a (dneg b)"

text \<open>An infinity or a zero with the sign given: \<open>True\<close> is the negative one.\<close>

definition inf_signed :: "bool \<Rightarrow> double" where
  "inf_signed negative = (if negative then NInf else PInf)"

definition zero_signed :: "bool \<Rightarrow> double" where
  "zero_signed negative = (if negative then NZero else Fin 0)"

definition dmul :: "double \<Rightarrow> double \<Rightarrow> double" where
  "dmul a b =
     (let negative = (signbit a \<noteq> signbit b)
      in if isnan a \<or> isnan b then NaN
         else if \<not> isfinite a \<or> \<not> isfinite b then
           (if (isfinite a \<and> val a = 0) \<or> (isfinite b \<and> val b = 0) then NaN
            else inf_signed negative)
         else if val a = 0 \<or> val b = 0 then zero_signed negative
         else rnd (val a * val b))"

definition ddiv :: "double \<Rightarrow> double \<Rightarrow> double" where
  "ddiv a b =
     (let negative = (signbit a \<noteq> signbit b)
      in if isnan a \<or> isnan b then NaN
         else if \<not> isfinite a then (if isfinite b then inf_signed negative else NaN)
         else if \<not> isfinite b then zero_signed negative
         else if val b = 0 then (if val a = 0 then NaN else inf_signed negative)
         else if val a = 0 then zero_signed negative
         else rnd (val a / val b))"

text \<open>The comparisons of C++: every comparison with a NaN is false, but \<^verbatim>\<open>!=\<close>; the zeros are equal.\<close>

fun dless :: "double \<Rightarrow> double \<Rightarrow> bool" where
  "dless NaN b = False"
| "dless a NaN = False"
| "dless PInf b = False"
| "dless a NInf = False"
| "dless a PInf = True"
| "dless NInf b = True"
| "dless a b = (val a < val b)"

definition dgreater :: "double \<Rightarrow> double \<Rightarrow> bool" where
  "dgreater a b = dless b a"

fun deq :: "double \<Rightarrow> double \<Rightarrow> bool" where
  "deq NaN b = False"
| "deq a NaN = False"
| "deq PInf b = (b = PInf)"
| "deq NInf b = (b = NInf)"
| "deq a PInf = False"
| "deq a NInf = False"
| "deq a b = (val a = val b)"

text \<open>
  \<^verbatim>\<open>std::round\<close> (halves away from zero), \<^verbatim>\<open>std::floor\<close> and \<^verbatim>\<open>std::ceil\<close>: their results are
  integers of the same sign as the argument and never need rounding.
\<close>

definition integral_signed :: "real \<Rightarrow> int \<Rightarrow> double" where
  "integral_signed x k = (if k = 0 \<and> x < 0 then NZero else Fin (of_int k))"

fun dround :: "double \<Rightarrow> double" where
  "dround (Fin x) = integral_signed x (if x < 0 then - \<lfloor>- x + 1 / 2\<rfloor> else \<lfloor>x + 1 / 2\<rfloor>)"
| "dround a = a"

fun dfloor :: "double \<Rightarrow> double" where
  "dfloor (Fin x) = integral_signed x \<lfloor>x\<rfloor>"
| "dfloor a = a"

fun dceil :: "double \<Rightarrow> double" where
  "dceil (Fin x) = integral_signed x \<lceil>x\<rceil>"
| "dceil a = a"

text \<open>Conversions between \<^verbatim>\<open>int\<close> and \<^verbatim>\<open>double\<close>; the one to \<^verbatim>\<open>int\<close> truncates and is undefined
  when the truncated value is not an \<^verbatim>\<open>int\<close>.\<close>

definition double_of_int :: "int \<Rightarrow> double" where
  "double_of_int i = rnd (of_int i)"

fun int_of_double :: "double \<Rightarrow> int option" where
  "int_of_double (Fin x) =
     (let k = (if 0 \<le> x then \<lfloor>x\<rfloor> else \<lceil>x\<rceil>) in if int32 k then Some k else None)"
| "int_of_double NZero = Some 0"
| "int_of_double _ = None"

section \<open>Bungee.h: the request\<close>

text \<open>
  The enumeration of the resample modes is declared in \<^verbatim>\<open>Modes.h\<close>, which is not among the
  sources: the type of the field is a parameter \<open>'m\<close>, whose \<open>0\<close> is the enumerator that a
  value-initialised \<^verbatim>\<open>Request{}\<close> holds.
\<close>

record 'm Request =
  position :: double
  speed :: double
  pitch :: double
  reset :: bool
  resampleMode :: 'm

section \<open>Timing.cpp: the hop, preroll and next\<close>

text \<open>\<^verbatim>\<open>x << s\<close> on \<^verbatim>\<open>int\<close>.\<close>

definition shl32 :: "int \<Rightarrow> int \<Rightarrow> int option" where
  "shl32 x s = (if s < 0 \<or> 32 \<le> s then None else Some (to_int32 (x * 2 ^ nat s)))"

text \<open>
  \<^verbatim>\<open>Resample::Operations().setup\<close> is declared in \<^verbatim>\<open>Resample.h\<close>, which is not among the sources:
  the functions below take it as the parameter \<open>resampleSetup\<close>, the ratio it returns for the
  sample rates, the pitch and the mode of a request.
\<close>

type_synonym 'm ResampleSetup = "SampleRates \<Rightarrow> double \<Rightarrow> 'm \<Rightarrow> double"

definition calculateInputHop :: "'m ResampleSetup \<Rightarrow> Timing \<Rightarrow> 'm Request \<Rightarrow> double option" where
  "calculateInputHop resampleSetup t request =
     (case shl32 1 (log2SynthesisHop t) of
        None \<Rightarrow> None
      | Some hop \<Rightarrow>
          let unitHop = dmul (double_of_int hop)
                          (resampleSetup (sampleRates t) (pitch request) (resampleMode request))
          in Some (dmul unitHop (speed request)))"

definition Timing_preroll :: "'m ResampleSetup \<Rightarrow> Timing \<Rightarrow> 'm Request \<Rightarrow> 'm Request option" where
  "Timing_preroll resampleSetup t request =
     (case calculateInputHop resampleSetup t request of
        None \<Rightarrow> None
      | Some hop \<Rightarrow> Some (request\<lparr>position := dsub (position request) hop, reset := True\<rparr>))"

definition Timing_next :: "'m ResampleSetup \<Rightarrow> Timing \<Rightarrow> 'm Request \<Rightarrow> 'm Request option" where
  "Timing_next resampleSetup t request =
     (if \<not> isnan (speed request) \<and> \<not> isnan (position request) then
        (case calculateInputHop resampleSetup t request of
           None \<Rightarrow> None
         | Some hop \<Rightarrow> Some (request\<lparr>position := dadd (position request) hop, reset := False\<rparr>))
      else Some request)"

section \<open>Stream.h: the input buffer\<close>

text \<open>
  What stops a call: an \<^verbatim>\<open>assert\<close> that fails, an access outside an array, other undefined
  behaviour (the overflow of an \<^verbatim>\<open>int\<close>, a conversion out of range, a range whose end is
  before its start, a loop that cannot end), an exception of the standard library, and the
  fuel of a loop that has not come to its end.
\<close>

datatype error = AssertionFailed | OutOfBounds | Undefined | LengthError | OutOfFuel

text \<open>
  The members \<^verbatim>\<open>begin\<close> and \<^verbatim>\<open>end\<close>, the counts and the strides of \<^verbatim>\<open>Stream.h\<close> are of type \<^verbatim>\<open>int\<close>:
  every sum, difference and product of them below is computed only after the test that its
  value is an \<^verbatim>\<open>int\<close>, and is undefined otherwise.
\<close>

text \<open>
  The buffer is one array of \<open>channelStride * channelCount\<close> samples, channel after channel.
  \<open>bufBegin\<close> and \<open>bufEnd\<close> are the members \<^verbatim>\<open>begin\<close> and \<^verbatim>\<open>end\<close>.  The reference to the stretcher
  that the C++ class holds is the field \<open>stretcher\<close> of the stream below.
\<close>

record 'a InputBuffer =
  channelStride :: int
  channelCount :: int
  buffer :: "'a list"
  bufBegin :: int
  bufEnd :: int
  inputChunk :: InputChunk

text \<open>
  The constructor.  The size of the array is the product of two \<^verbatim>\<open>int\<close>s, converted to the
  unsigned size of \<^verbatim>\<open>std::vector\<close>; a negative product becomes a size beyond what a vector
  holds, and the constructor of the vector throws.
\<close>

definition InputBuffer_new :: "int \<Rightarrow> int \<Rightarrow> error + ('a::zero) InputBuffer" where
  "InputBuffer_new maxSampleCount channels =
     (if int32 (maxSampleCount * channels) then
        if maxSampleCount * channels < 0 then Inl LengthError
        else Inr \<lparr>channelStride = maxSampleCount, channelCount = channels,
                  buffer = replicate (nat (maxSampleCount * channels)) 0,
                  bufBegin = 0, bufEnd = 0,
                  inputChunk = \<lparr>chunkBegin = 0, chunkEnd = 0\<rparr>\<rparr>
      else Inl Undefined)"

text \<open>
  \<^verbatim>\<open>std::move(&b[lo], &b[hi], &b[dest])\<close> towards the front of the same array, and a write
  of samples at \<^verbatim>\<open>&b[dest]\<close> (\<^verbatim>\<open>std::copy\<close> from the caller's array, \<^verbatim>\<open>std::fill\<close> with zeros).
\<close>

definition moveRange :: "'a list \<Rightarrow> int \<Rightarrow> int \<Rightarrow> int \<Rightarrow> error + 'a list" where
  "moveRange b lo hi dest =
     (if 0 \<le> dest \<and> dest \<le> lo \<and> lo \<le> hi \<and> hi \<le> int (length b) then
        Inr (take (nat dest) b @ take (nat (hi - lo)) (drop (nat lo) b)
             @ drop (nat (dest + (hi - lo))) b)
      else Inl OutOfBounds)"

definition writeRange :: "'a list \<Rightarrow> int \<Rightarrow> 'a list \<Rightarrow> error + 'a list" where
  "writeRange b dest samples =
     (if 0 \<le> dest \<and> dest + int (length samples) \<le> int (length b) then
        Inr (take (nat dest) b @ samples @ drop (nat dest + length samples) b)
      else Inl OutOfBounds)"

text \<open>The samples \<^verbatim>\<open>p[lo]\<close> to \<^verbatim>\<open>p[hi - 1]\<close> of an array of the caller.\<close>

definition readRange :: "'a list \<Rightarrow> int \<Rightarrow> int \<Rightarrow> error + 'a list" where
  "readRange p lo hi =
     (if 0 \<le> lo \<and> lo \<le> hi \<and> hi \<le> int (length p) then
        Inr (take (nat (hi - lo)) (drop (nat lo) p))
      else Inl OutOfBounds)"

text \<open>A loop over a list that stops at the first error.\<close>

fun foldE :: "('b \<Rightarrow> 's \<Rightarrow> error + 's) \<Rightarrow> 'b list \<Rightarrow> 's \<Rightarrow> error + 's" where
  "foldE f [] s = Inr s"
| "foldE f (x # xs) s = (case f x s of Inl e \<Rightarrow> Inl e | Inr s' \<Rightarrow> foldE f xs s')"

text \<open>
  The loop \<^verbatim>\<open>for (int x = 0; x < (int)buffer.size(); x += channelStride)\<close> of \<open>append\<close>, from a
  value of \<open>x\<close> on; \<open>n\<close> is the size of the array.  Each round moves the samples that stay in
  the window to the start of a channel.  With a stride that is not positive the loop cannot
  end.
\<close>

function moveChannels ::
    "int \<Rightarrow> int \<Rightarrow> int \<Rightarrow> int \<Rightarrow> int \<Rightarrow> int \<Rightarrow> 'a list \<Rightarrow> error + 'a list" where
  "moveChannels x n stride chunkStart windowStart windowStop b =
     (if x < n then
        if int32 (x + chunkStart) \<and> int32 (x + chunkStart - windowStart)
           \<and> int32 (x + windowStop) \<and> int32 (x + windowStop - windowStart)
        then
          (case moveRange b (x + chunkStart - windowStart) (x + windowStop - windowStart) x of
             Inl e \<Rightarrow> Inl e
           | Inr b1 \<Rightarrow>
               if 0 < stride \<and> int32 (x + stride)
               then moveChannels (x + stride) n stride chunkStart windowStart windowStop b1
               else Inl Undefined)
        else Inl Undefined
      else Inr b)"
  by pat_completeness auto
termination
  by (relation "measure (\<lambda>(x, n, stride, chunkStart, windowStart, windowStop, b). nat (n - x))")
    auto

declare moveChannels.simps [simp del]

text \<open>
  The three parts of \<open>append\<close>.  First the window is shifted; the result is the number of new
  samples to discard and the buffer.
\<close>

definition shiftWindow :: "'a InputBuffer \<Rightarrow> int \<Rightarrow> error + (int \<times> 'a InputBuffer)" where
  "shiftWindow ib inputSampleCount =
     (if chunkBegin (inputChunk ib) < bufEnd ib then
        if bufBegin ib < chunkBegin (inputChunk ib) then
          (case moveChannels 0 (int (length (buffer ib))) (channelStride ib)
                  (chunkBegin (inputChunk ib)) (bufBegin ib) (bufEnd ib) (buffer ib) of
             Inl e \<Rightarrow> Inl e
           | Inr b \<Rightarrow> Inr (0, ib\<lparr>buffer := b, bufBegin := chunkBegin (inputChunk ib)\<rparr>))
        else Inr (0, ib)
      else
        if int32 (chunkBegin (inputChunk ib) - bufBegin ib)
        then Inr (min (chunkBegin (inputChunk ib) - bufBegin ib) inputSampleCount,
                  ib\<lparr>bufBegin := bufEnd ib\<rparr>)
        else Inl Undefined)"

text \<open>
  Then, for the channel \<open>c\<close>, the new samples are copied from the array of the caller, or
  zeros are filled in where the caller passes the null pointer (\<open>None\<close>).
\<close>

definition writeChannel ::
    "('a::zero) InputBuffer \<Rightarrow> 'a list list option \<Rightarrow> int \<Rightarrow> int \<Rightarrow> nat \<Rightarrow> 'a list
       \<Rightarrow> error + 'a list" where
  "writeChannel ib inputPointers discard inputSampleCount c b =
     (if int32 (bufEnd ib - bufBegin ib) \<and> int32 (int c * channelStride ib)
         \<and> int32 ((bufEnd ib - bufBegin ib) + int c * channelStride ib)
      then
        (case inputPointers of
           Some pointers \<Rightarrow>
             if c < length pointers then
               (case readRange (pointers ! c) discard inputSampleCount of
                  Inl e \<Rightarrow> Inl e
                | Inr samples \<Rightarrow>
                    writeRange b ((bufEnd ib - bufBegin ib) + int c * channelStride ib) samples)
             else Inl OutOfBounds
         | None \<Rightarrow>
             if int32 (inputSampleCount - discard)
                \<and> int32 ((bufEnd ib - bufBegin ib) + int c * channelStride ib
                          + (inputSampleCount - discard))
                \<and> 0 \<le> inputSampleCount - discard
             then writeRange b ((bufEnd ib - bufBegin ib) + int c * channelStride ib)
                    (replicate (nat (inputSampleCount - discard)) 0)
             else Inl Undefined)
      else Inl Undefined)"

text \<open>Last the two offsets are advanced and the two assertions are tested.\<close>

definition advanceWindow :: "'a InputBuffer \<Rightarrow> int \<Rightarrow> int \<Rightarrow> error + 'a InputBuffer" where
  "advanceWindow ib discard inputSampleCount =
     (if int32 (bufBegin ib + discard) \<and> int32 (bufEnd ib + inputSampleCount) then
        if bufEnd ib + inputSampleCount < bufBegin ib + discard then Inl AssertionFailed
        else if int32 (bufEnd ib + inputSampleCount - (bufBegin ib + discard)) then
          if channelStride ib < bufEnd ib + inputSampleCount - (bufBegin ib + discard)
          then Inl AssertionFailed
          else Inr (ib\<lparr>bufBegin := bufBegin ib + discard, bufEnd := bufEnd ib + inputSampleCount\<rparr>)
        else Inl Undefined
      else Inl Undefined)"

definition append ::
    "('a::zero) InputBuffer \<Rightarrow> int \<Rightarrow> 'a list list option \<Rightarrow> error + 'a InputBuffer" where
  "append ib inputSampleCount inputPointers =
     (case shiftWindow ib inputSampleCount of
        Inl e \<Rightarrow> Inl e
      | Inr (discard, ib1) \<Rightarrow>
          (case foldE (writeChannel ib1 inputPointers discard inputSampleCount)
                  [0 ..< nat (channelCount ib1)] (buffer ib1) of
             Inl e \<Rightarrow> Inl e
           | Inr b \<Rightarrow> advanceWindow (ib1\<lparr>buffer := b\<rparr>) discard inputSampleCount))"

definition endPosition :: "'a InputBuffer \<Rightarrow> int" where
  "endPosition ib = bufEnd ib"

text \<open>
  What \<open>analyseGrain\<close> of the buffer hands to \<open>analyseGrain\<close> of the stretcher: a pointer into
  an array, given by the array and the offset of the pointer from its first element, the
  stride and the two mute counts.
\<close>

record 'a AnalyseCall =
  dataArray :: "'a list"
  dataOffset :: int
  dataChannelStride :: int
  muteFrameCountHead :: int
  muteFrameCountTail :: int

definition analyseGrain :: "'a InputBuffer \<Rightarrow> error + 'a AnalyseCall" where
  "analyseGrain ib =
     (if int32 (bufBegin ib - chunkBegin (inputChunk ib))
         \<and> int32 (chunkEnd (inputChunk ib) - bufEnd ib)
         \<and> int32 (chunkEnd (inputChunk ib) - chunkBegin (inputChunk ib))
      then
        let muteHead = bufBegin ib - chunkBegin (inputChunk ib);
            muteTail = chunkEnd (inputChunk ib) - bufEnd ib
        in if chunkEnd (inputChunk ib) - chunkBegin (inputChunk ib) \<le> muteHead \<or> muteTail \<le> 0
           then Inr \<lparr>dataArray = buffer ib, dataOffset = - muteHead,
                     dataChannelStride = channelStride ib,
                     muteFrameCountHead = muteHead, muteFrameCountTail = muteTail\<rparr>
           else Inl AssertionFailed
      else Inl Undefined)"

section \<open>Stream.h: the stream\<close>

text \<open>
  An output chunk: \<open>chunkData\<close> reads the sample at an offset from the pointer \<^verbatim>\<open>data\<close>, and
  \<open>request0\<close> and \<open>request1\<close> are the pointers \<^verbatim>\<open>request[0]\<close> and \<^verbatim>\<open>request[1]\<close> (\<open>None\<close> is the
  null pointer), which point to requests that the stretcher owns.
\<close>

record ('p, 'a) OutputChunk =
  chunkData :: "int \<Rightarrow> 'a"
  frameCount :: int
  chunkChannelStride :: int
  request0 :: "'p option"
  request1 :: "'p option"

text \<open>
  \<^verbatim>\<open>Stretcher<Implementation>\<close> calls an implementation through a table of function pointers;
  the implementation is not among the sources.  The stream takes it as a parameter: a state
  \<open>'s\<close> and the functions that the stream calls, each from a state to its result and the next
  state.  \<open>requestAt\<close> reads the request that a pointer of an output chunk points to.
\<close>

record ('s, 'p, 'a, 'm) Stretcher =
  stretcherMaxInputFrameCount :: "'s \<Rightarrow> int"
  stretcherSpecifyGrain :: "'m Request \<Rightarrow> 's \<Rightarrow> InputChunk \<times> 's"
  stretcherAnalyseGrain :: "'a AnalyseCall \<Rightarrow> 's \<Rightarrow> 's"
  stretcherSynthesiseGrain :: "('p, 'a) OutputChunk \<Rightarrow> 's \<Rightarrow> ('p, 'a) OutputChunk \<times> 's"
  requestAt :: "'s \<Rightarrow> 'p \<Rightarrow> 'm Request"

record ('s, 'p, 'a, 'm) Stream =
  streamChannelCount :: int
  inputBuffer :: "'a InputBuffer"
  stretcher :: 's
  request :: "'m Request"
  outputChunk :: "('p, 'a) OutputChunk"
  outputChunkConsumed :: int
  samplesNeeded :: double

text \<open>
  The constructor: the members take the values of their initialisers, the buffer is sized
  for \<open>maxInputFrameCount() + maxInputSampleCount\<close> samples a channel, and the position of the
  request is set to the NaN.
\<close>

definition Stream_new ::
    "('s, 'p, 'a::zero, 'm::zero) Stretcher \<Rightarrow> 's \<Rightarrow> int \<Rightarrow> int
       \<Rightarrow> error + ('s, 'p, 'a, 'm) Stream" where
  "Stream_new S s maxInputSampleCount channels =
     (if int32 (stretcherMaxInputFrameCount S s + maxInputSampleCount) then
        (case InputBuffer_new (stretcherMaxInputFrameCount S s + maxInputSampleCount) channels of
           Inl e \<Rightarrow> Inl e
         | Inr ib \<Rightarrow>
             Inr \<lparr>streamChannelCount = channels,
                  inputBuffer = ib,
                  stretcher = s,
                  request = \<lparr>position = NaN, speed = Fin 0, pitch = Fin 0, reset = False,
                             resampleMode = 0\<rparr>,
                  outputChunk = \<lparr>chunkData = (\<lambda>k. 0), frameCount = 0, chunkChannelStride = 0,
                                 request0 = None, request1 = None\<rparr>,
                  outputChunkConsumed = 0,
                  samplesNeeded = Fin 0\<rparr>)
      else Inl Undefined)"

text \<open>
  The body of \<^verbatim>\<open>if (processGrain)\<close>, in two parts.  First the grain that was specified before
  is analysed and synthesised, unless its position is a NaN.
\<close>

definition synthesisePrevious ::
    "('s, 'p, 'a, 'm) Stretcher \<Rightarrow> ('s, 'p, 'a, 'm) Stream \<Rightarrow> error + ('s, 'p, 'a, 'm) Stream" where
  "synthesisePrevious S st =
     (if \<not> isnan (position (request st)) then
        (case analyseGrain (inputBuffer st) of
           Inl e \<Rightarrow> Inl e
         | Inr call \<Rightarrow>
             let s1 = stretcherAnalyseGrain S call (stretcher st);
                 (chunk, s2) = stretcherSynthesiseGrain S (outputChunk st) s1
             in Inr (st\<lparr>stretcher := s2, outputChunk := chunk, outputChunkConsumed := 0\<rparr>))
      else Inr st)"

text \<open>
  Then the position of the next grain is computed and the grain is specified.  The
  difference of the end of the window and half of \<open>maxInputFrameCount()\<close> is one of \<^verbatim>\<open>int\<close>s; the
  product, the quotient and the last difference are those of \<^verbatim>\<open>double\<close>.
\<close>

definition grainPosition ::
    "('s, 'p, 'a, 'm) Stretcher \<Rightarrow> ('s, 'p, 'a, 'm) Stream \<Rightarrow> int \<Rightarrow> double \<Rightarrow> int
       \<Rightarrow> error + double" where
  "grainPosition S st inputSampleCount outputSampleCount sampleCounter =
     (let proportionRemainingDenominator = dround outputSampleCount;
          proportionRemainingNumerator =
            dsub proportionRemainingDenominator (double_of_int sampleCounter)
      in if int32 (endPosition (inputBuffer st)
                   - tdiv (stretcherMaxInputFrameCount S (stretcher st)) 2)
         then Inr (dsub (double_of_int (endPosition (inputBuffer st)
                                        - tdiv (stretcherMaxInputFrameCount S (stretcher st)) 2))
                        (ddiv (dmul (double_of_int inputSampleCount) proportionRemainingNumerator)
                              proportionRemainingDenominator))
         else Inl Undefined)"

definition specifyNext ::
    "('s, 'p, 'a, 'm) Stretcher \<Rightarrow> ('s, 'p, 'a, 'm) Stream \<Rightarrow> int \<Rightarrow> double \<Rightarrow> int
       \<Rightarrow> error + ('s, 'p, 'a, 'm) Stream" where
  "specifyNext S st inputSampleCount outputSampleCount sampleCounter =
     (case grainPosition S st inputSampleCount outputSampleCount sampleCounter of
        Inl e \<Rightarrow> Inl e
      | Inr pos \<Rightarrow>
          let req = (request st)\<lparr>reset := \<not> dgreater pos (position (request st)), position := pos\<rparr>;
              (chunk, s1) = stretcherSpecifyGrain S req (stretcher st)
          in Inr (st\<lparr>request := req, stretcher := s1,
                     inputBuffer := (inputBuffer st)\<lparr>inputChunk := chunk\<rparr>\<rparr>))"

text \<open>
  The arrays of the caller that \<^verbatim>\<open>outputPointers\<close> points to: the sample of a channel at an
  index.  The second \<^verbatim>\<open>if\<close> of the loop copies \<open>n\<close> samples of every channel into them; a
  negative \<open>n\<close> is a range whose end is before its start.
\<close>

type_synonym 'a OutputPointers = "nat \<Rightarrow> int \<Rightarrow> 'a"

definition copyOut ::
    "('p, 'a) OutputChunk \<Rightarrow> int \<Rightarrow> int \<Rightarrow> int \<Rightarrow> int \<Rightarrow> 'a OutputPointers \<Rightarrow> 'a OutputPointers" where
  "copyOut chunk consumed channels sampleCounter n outputPointers =
     (\<lambda>c k. if int c < channels \<and> sampleCounter \<le> k \<and> k < sampleCounter + n
            then chunkData chunk (consumed + int c * chunkChannelStride chunk + (k - sampleCounter))
            else outputPointers c k)"

definition emitSamples ::
    "('s, 'p, 'a, 'm) Stretcher \<Rightarrow> ('s, 'p, 'a, 'm) Stream \<Rightarrow> 'a OutputPointers \<Rightarrow> int
       \<Rightarrow> error + (('s, 'p, 'a, 'm) Stream \<times> 'a OutputPointers \<times> int)" where
  "emitSamples S st outputPointers sampleCounter =
     (case request0 (outputChunk st) of
        None \<Rightarrow> Inr (st, outputPointers, sampleCounter)
      | Some p \<Rightarrow>
          if isnan (position (requestAt S (stretcher st) p))
          then Inr (st, outputPointers, sampleCounter)
          else
            (case int_of_double (dsub (dround (samplesNeeded st)) (double_of_int sampleCounter)) of
               None \<Rightarrow> Inl Undefined
             | Some need \<Rightarrow>
                 if int32 (frameCount (outputChunk st) - outputChunkConsumed st) then
                   let available = frameCount (outputChunk st) - outputChunkConsumed st;
                       n = min need available
                   in if 0 < streamChannelCount st \<and> n < 0 then Inl Undefined
                      else if int32 (sampleCounter + n) \<and> int32 (outputChunkConsumed st + n)
                      then Inr (st\<lparr>outputChunkConsumed := outputChunkConsumed st + n\<rparr>,
                                copyOut (outputChunk st) (outputChunkConsumed st)
                                  (streamChannelCount st) sampleCounter n outputPointers,
                                sampleCounter + n)
                      else Inl Undefined
                 else Inl Undefined))"

text \<open>
  The loop of \<open>process\<close>.  It runs until the counter equals the rounded number of samples
  needed, so the number of its rounds has no bound that the stream knows: the first
  argument is the number of rounds that are left.
\<close>

fun processLoop ::
    "nat \<Rightarrow> ('s, 'p, 'a, 'm) Stretcher \<Rightarrow> int \<Rightarrow> double \<Rightarrow> bool
       \<Rightarrow> ('s, 'p, 'a, 'm) Stream \<times> 'a OutputPointers \<times> int
       \<Rightarrow> error + (('s, 'p, 'a, 'm) Stream \<times> 'a OutputPointers \<times> int)" where
  "processLoop 0 S inputSampleCount outputSampleCount processGrain (st, outputPointers, sampleCounter) =
     (if deq (double_of_int sampleCounter) (dround (samplesNeeded st))
      then Inr (st, outputPointers, sampleCounter) else Inl OutOfFuel)"
| "processLoop (Suc rounds) S inputSampleCount outputSampleCount processGrain
       (st, outputPointers, sampleCounter) =
     (if deq (double_of_int sampleCounter) (dround (samplesNeeded st))
      then Inr (st, outputPointers, sampleCounter)
      else
        (case (if processGrain then
                 (case synthesisePrevious S st of
                    Inl e \<Rightarrow> Inl e
                  | Inr st1 \<Rightarrow> specifyNext S st1 inputSampleCount outputSampleCount sampleCounter)
               else Inr st) of
           Inl e \<Rightarrow> Inl e
         | Inr st2 \<Rightarrow>
             (case emitSamples S st2 outputPointers sampleCounter of
                Inl e \<Rightarrow> Inl e
              | Inr next \<Rightarrow> processLoop rounds S inputSampleCount outputSampleCount True next)))"

text \<open>\<open>process\<close> up to the end of its loop, and all of it.\<close>

definition processBody ::
    "nat \<Rightarrow> ('s, 'p, 'a::zero, 'm) Stretcher \<Rightarrow> ('s, 'p, 'a, 'm) Stream \<Rightarrow> 'a list list option
       \<Rightarrow> 'a OutputPointers \<Rightarrow> int \<Rightarrow> double \<Rightarrow> double
       \<Rightarrow> error + (('s, 'p, 'a, 'm) Stream \<times> 'a OutputPointers \<times> int)" where
  "processBody rounds S st inputPointers outputPointers inputSampleCount outputSampleCount pitchShift =
     (case append (inputBuffer st) inputSampleCount inputPointers of
        Inl e \<Rightarrow> Inl e
      | Inr ib \<Rightarrow>
          processLoop rounds S inputSampleCount outputSampleCount False
            (st\<lparr>inputBuffer := ib,
                request := (request st)\<lparr>speed := ddiv (double_of_int inputSampleCount) outputSampleCount,
                                         pitch := pitchShift\<rparr>,
                samplesNeeded := dadd (samplesNeeded st) outputSampleCount\<rparr>,
             outputPointers, 0))"

definition process ::
    "nat \<Rightarrow> ('s, 'p, 'a::zero, 'm) Stretcher \<Rightarrow> ('s, 'p, 'a, 'm) Stream \<Rightarrow> 'a list list option
       \<Rightarrow> 'a OutputPointers \<Rightarrow> int \<Rightarrow> double \<Rightarrow> double
       \<Rightarrow> error + (int \<times> 'a OutputPointers \<times> ('s, 'p, 'a, 'm) Stream)" where
  "process rounds S st inputPointers outputPointers inputSampleCount outputSampleCount pitchShift =
     (case processBody rounds S st inputPointers outputPointers inputSampleCount outputSampleCount
             pitchShift of
        Inl e \<Rightarrow> Inl e
      | Inr (st1, outputPointers1, sampleCounter) \<Rightarrow>
          if deq (double_of_int sampleCounter) (dfloor outputSampleCount)
             \<or> deq (double_of_int sampleCounter) (dceil outputSampleCount)
          then Inr (sampleCounter, outputPointers1,
                    st1\<lparr>samplesNeeded := dsub (samplesNeeded st1) (double_of_int sampleCounter)\<rparr>)
          else Inl AssertionFailed)"

text \<open>
  A sequence of calls of \<open>process\<close> on one stream, each with output arrays of its own; the
  result lists what the calls returned.  \<open>processFresh\<close> constructs the stream first.
\<close>

record 'a ProcessCall =
  callInputPointers :: "'a list list option"
  callInputSampleCount :: int
  callOutputSampleCount :: double
  callPitch :: double

fun processAll ::
    "nat \<Rightarrow> ('s, 'p, 'a::zero, 'm) Stretcher \<Rightarrow> ('s, 'p, 'a, 'm) Stream \<Rightarrow> 'a ProcessCall list
       \<Rightarrow> error + (int list \<times> ('s, 'p, 'a, 'm) Stream)" where
  "processAll rounds S st [] = Inr ([], st)"
| "processAll rounds S st (c # cs) =
     (case process rounds S st (callInputPointers c) (\<lambda>c k. 0) (callInputSampleCount c)
             (callOutputSampleCount c) (callPitch c) of
        Inl e \<Rightarrow> Inl e
      | Inr (n, outputPointers, st1) \<Rightarrow>
          (case processAll rounds S st1 cs of
             Inl e \<Rightarrow> Inl e
           | Inr (ns, st2) \<Rightarrow> Inr (n # ns, st2)))"

definition processFresh ::
    "nat \<Rightarrow> ('s, 'p, 'a::zero, 'm::zero) Stretcher \<Rightarrow> 's \<Rightarrow> int \<Rightarrow> int \<Rightarrow> 'a ProcessCall list
       \<Rightarrow> error + (int list \<times> ('s, 'p, 'a, 'm) Stream)" where
  "processFresh rounds S s maxInputSampleCount channels calls =
     (case Stream_new S s maxInputSampleCount channels of
        Inl e \<Rightarrow> Inl e
      | Inr st \<Rightarrow> processAll rounds S st calls)"

section \<open>The formulas of the specification\<close>

text \<open>
  The spec states \<open>log2SynthesisHop\<close> and the two frame-count bounds as formulas on the
  integers, with \<open><<\<close> a multiplication by a power of two and \<open>/\<close> the integer division.
  They are written here as the spec words them, to be compared with the functions of
  \<^verbatim>\<open>Timing.cpp\<close> above.
\<close>

definition spec_log2SynthesisHop :: "SampleRates \<Rightarrow> int \<Rightarrow> int" where
  "spec_log2SynthesisHop rates adjust = \<lfloor>log 2 (real_of_int (inputRate rates))\<rfloor> - 6 + adjust"

definition spec_maxInputFrameCount :: "SampleRates \<Rightarrow> int \<Rightarrow> int" where
  "spec_maxInputFrameCount rates hop =
     (inputRate rates * 2 ^ nat (maxPitchOctaves + hop + 3)) div outputRate rates + 1"

definition spec_maxOutputFrameCount :: "SampleRates \<Rightarrow> int \<Rightarrow> int" where
  "spec_maxOutputFrameCount rates hop =
     (outputRate rates * 2 ^ nat (maxPitchOctaves + hop)) div inputRate rates + 1"

text \<open>
  The sample rates and adjustments that \<^verbatim>\<open>Timing\<close> supports: the rates are positive values of
  \<^verbatim>\<open>int\<close>, the adjustment leaves both shift counts non-negative, and both bounds of the spec
  are values of \<^verbatim>\<open>int\<close>, the type that the C++ functions return.
\<close>

definition supportedTiming :: "SampleRates \<Rightarrow> int \<Rightarrow> bool" where
  "supportedTiming rates adjust =
     (let hop = log2SynthesisHop (Timing_new rates adjust)
      in 0 < inputRate rates \<and> inputRate rates < 2 ^ 31
         \<and> 0 < outputRate rates \<and> outputRate rates < 2 ^ 31
         \<and> 0 \<le> maxPitchOctaves + hop
         \<and> spec_maxInputFrameCount rates hop < 2 ^ 31
         \<and> spec_maxOutputFrameCount rates hop < 2 ^ 31)"

text \<open>The shape that both bounds share.\<close>

definition idealBound :: "int \<Rightarrow> int \<Rightarrow> int \<Rightarrow> int" where
  "idealBound n s d = (n * 2 ^ nat s) div d + 1"

section \<open>Examples\<close>

text \<open>The two conditions that \<open>append\<close> asserts.\<close>

definition windowInvariant :: "'a InputBuffer \<Rightarrow> bool" where
  "windowInvariant ib \<longleftrightarrow> bufBegin ib \<le> bufEnd ib \<and> bufEnd ib - bufBegin ib \<le> channelStride ib"

text \<open>
  A window of one channel that holds the frames 3 to 7 while the last grain asked for the
  frames 1 to 6.
\<close>

definition exampleMutedWindow :: "int InputBuffer" where
  "exampleMutedWindow =
     \<lparr>channelStride = 15, channelCount = 1, buffer = [11, 12, 13, 14, 15, 0, 0, 0, 0, 0, 0, 0, 0, 0, 0],
      bufBegin = 3, bufEnd = 8, inputChunk = \<lparr>chunkBegin = 1, chunkEnd = 7\<rparr>\<rparr>"

text \<open>
  A window of one channel with room for the 8 frames of a grain and 2 new samples
  (\<open>channelStride = 10\<close>).  It is full: it holds the frames 0 to 9, and no grain has been
  specified yet, so \<open>inputChunk\<close> is still the empty chunk of the constructor.
\<close>

definition exampleFullWindow :: "int InputBuffer" where
  "exampleFullWindow =
     \<lparr>channelStride = 10, channelCount = 1, buffer = [0, 0, 0, 0, 0, 0, 0, 0, 0, 0],
      bufBegin = 0, bufEnd = 10, inputChunk = \<lparr>chunkBegin = 0, chunkEnd = 0\<rparr>\<rparr>"

text \<open>
  A timing for 44100 Hz in and out with no adjustment (\<open>log2SynthesisHop = 9\<close>), a resampler
  setup whose ratio is always 1, and three requests at speed 1 and pitch 1: one at position
  1000, one at the \<^verbatim>\<open>double\<close> nearest to 0.1, and one whose position is the NaN.
\<close>

definition exampleTiming :: Timing where
  "exampleTiming = Timing_new \<lparr>inputRate = 44100, outputRate = 44100\<rparr> 0"

definition unitSetup :: "nat ResampleSetup" where
  "unitSetup rates p m = Fin 1"

definition exampleRequest :: "nat Request" where
  "exampleRequest = \<lparr>position = Fin 1000, speed = Fin 1, pitch = Fin 1, reset = True, resampleMode = 0\<rparr>"


definition exampleRequestNaN :: "nat Request" where
  "exampleRequestNaN = \<lparr>position = NaN, speed = Fin 1, pitch = Fin 1, reset = True, resampleMode = 0\<rparr>"


text \<open>
  A stretcher for the examples.  Its state is the request of the last grain specified; it
  asks for the 8 frames around the position of a grain, synthesises the same number of
  silent frames for every grain, and the requests of its output chunks point to its state.
\<close>

definition exampleStretcher :: "int \<Rightarrow> (nat Request, unit, int, nat) Stretcher" where
  "exampleStretcher frames =
     \<lparr>stretcherMaxInputFrameCount = (\<lambda>s. 8),
      stretcherSpecifyGrain =
        (\<lambda>req s. (case int_of_double (dfloor (position req)) of
                     None \<Rightarrow> \<lparr>chunkBegin = 0, chunkEnd = 0\<rparr>
                   | Some c \<Rightarrow> \<lparr>chunkBegin = c - 4, chunkEnd = c + 4\<rparr>, req)),
      stretcherAnalyseGrain = (\<lambda>call s. s),
      stretcherSynthesiseGrain =
        (\<lambda>chunk s. (\<lparr>chunkData = (\<lambda>k. 0), frameCount = frames, chunkChannelStride = frames,
                      request0 = Some (), request1 = Some ()\<rparr>, s)),
      requestAt = (\<lambda>s p. s)\<rparr>"

definition exampleIdle :: "nat Request" where
  "exampleIdle = \<lparr>position = NaN, speed = Fin 0, pitch = Fin 0, reset = False, resampleMode = 0\<rparr>"

text \<open>A call of \<open>process\<close> with mute input and pitch 1.\<close>

definition muteCall :: "int \<Rightarrow> double \<Rightarrow> int ProcessCall" where
  "muteCall inputSamples outputSamples =
     \<lparr>callInputPointers = None, callInputSampleCount = inputSamples,
      callOutputSampleCount = outputSamples, callPitch = Fin 1\<rparr>"

text \<open>
  The stream of one channel on this stretcher, for calls with up to 2 input samples, after
  calls that took input and specified no grain: the window holds the mute frames 0 to
  \<open>e - 1\<close> and \<open>samplesNeeded\<close> is \<open>sn\<close>.
\<close>

definition exampleWaiting :: "int \<Rightarrow> real \<Rightarrow> (nat Request, unit, int, nat) Stream" where
  "exampleWaiting e sn =
     \<lparr>streamChannelCount = 1,
      inputBuffer = exampleFullWindow\<lparr>bufEnd := e\<rparr>,
      stretcher = exampleIdle,
      request = \<lparr>position = NaN, speed = Fin 32, pitch = Fin 1, reset = False, resampleMode = 0\<rparr>,
      outputChunk = \<lparr>chunkData = (\<lambda>k. 0), frameCount = 0, chunkChannelStride = 0,
                      request0 = None, request1 = None\<rparr>,
      outputChunkConsumed = 0,
      samplesNeeded = Fin sn\<rparr>"

text \<open>
  The same stream after the call \<open>process(nullptr, out, 2, 1.5 - 2 ^ -52)\<close> on the stretcher
  that synthesises 4 frames a grain: two grains were specified at the position \<open>-4\<close>, one
  of them was synthesised, one of its frames was consumed, and the samples needed are
  \<open>1 / 2 - 2 ^ -52\<close>.
\<close>

definition exampleCarrying :: "(nat Request, unit, int, nat) Stream" where
  "exampleCarrying =
     \<lparr>streamChannelCount = 1,
      inputBuffer = exampleFullWindow\<lparr>bufEnd := 2, inputChunk := \<lparr>chunkBegin = - 8, chunkEnd = 0\<rparr>\<rparr>,
      stretcher = \<lparr>position = Fin (- 4), speed = Fin (3002399751580331 / 2251799813685248),
                    pitch = Fin 1, reset = True, resampleMode = 0\<rparr>,
      request = \<lparr>position = Fin (- 4), speed = Fin (3002399751580331 / 2251799813685248),
                  pitch = Fin 1, reset = True, resampleMode = 0\<rparr>,
      outputChunk = \<lparr>chunkData = \<lambda>k. 0, frameCount = 4, chunkChannelStride = 4,
                      request0 = Some (), request1 = Some ()\<rparr>,
      outputChunkConsumed = 1,
      samplesNeeded = Fin (1 / 2 - 1 / 2 ^ 52)\<rparr>"

section \<open>The requests that a stretcher is given\<close>

text \<open>
  To speak of the grains that a stream specifies, a stretcher is run with a record beside
  its state: the list of the requests that \<open>specifyGrain\<close> was called with, the first one
  first.  The other functions leave the list as it is.
\<close>

definition recording ::
    "('s, 'p, 'a, 'm) Stretcher \<Rightarrow> ('s \<times> 'm Request list, 'p, 'a, 'm) Stretcher" where
  "recording S =
     \<lparr>stretcherMaxInputFrameCount = (\<lambda>sl. stretcherMaxInputFrameCount S (fst sl)),
      stretcherSpecifyGrain =
        (\<lambda>req sl. (fst (stretcherSpecifyGrain S req (fst sl)),
                    (snd (stretcherSpecifyGrain S req (fst sl)), snd sl @ [req]))),
      stretcherAnalyseGrain = (\<lambda>call sl. (stretcherAnalyseGrain S call (fst sl), snd sl)),
      stretcherSynthesiseGrain =
        (\<lambda>chunk sl. (fst (stretcherSynthesiseGrain S chunk (fst sl)),
                      (snd (stretcherSynthesiseGrain S chunk (fst sl)), snd sl))),
      requestAt = (\<lambda>sl p. requestAt S (fst sl) p)\<rparr>"

text \<open>
  A list of requests in which \<open>reset\<close> is set exactly where the position is not greater
  (\<^verbatim>\<open>>\<close> of \<^verbatim>\<open>double\<close>) than the position of the request before; \<open>prev\<close> is the position
  before the first one.
\<close>

fun resetsFollow :: "double \<Rightarrow> 'm Request list \<Rightarrow> bool" where
  "resetsFollow prev [] = True"
| "resetsFollow prev (r # rs) =
     (reset r = (\<not> dgreater (position r) prev) \<and> resetsFollow (position r) rs)"

text \<open>
  The condition that the loop of \<open>process\<close> keeps on a stream whose stretcher records its
  requests: the record is as \<open>resetsFollow\<close> describes, from the NaN of the constructor on,
  and the position of the request of the stream is that of the last grain specified.
\<close>

definition resetsRecorded :: "('s \<times> 'm Request list, 'p, 'a, 'm) Stream \<Rightarrow> bool" where
  "resetsRecorded st \<longleftrightarrow>
     resetsFollow NaN (snd (stretcher st))
     \<and> position (request st)
         = (if snd (stretcher st) = [] then NaN else position (last (snd (stretcher st))))"

text \<open>
  The three grains that the call \<open>process(nullptr, out, 2, 8.0)\<close> specifies on a fresh stream
  of the stretcher of the examples with 4 frames a grain.
\<close>

definition exampleGrains :: "nat Request list" where
  "exampleGrains =
     [\<lparr>position = Fin (- 4), speed = Fin (1 / 4), pitch = Fin 1, reset = True, resampleMode = 0\<rparr>,
      \<lparr>position = Fin (- 4), speed = Fin (1 / 4), pitch = Fin 1, reset = True, resampleMode = 0\<rparr>,
      \<lparr>position = Fin (- 3), speed = Fin (1 / 4), pitch = Fin 1, reset = False, resampleMode = 0\<rparr>]"

section \<open>The sums that a stream carries\<close>

text \<open>
  \<open>process\<close> adds \<open>outputSampleCount\<close> to \<open>samplesNeeded\<close> before its loop and subtracts the
  number of samples it returns after it.  For a value of \<open>samplesNeeded\<close>, a list of calls
  and the numbers that they returned, \<open>exactAdditions\<close> says that every one of these additions
  gave a finite \<^verbatim>\<open>double\<close> that is the real sum: none of them was rounded.
\<close>

fun exactAdditions :: "double \<Rightarrow> 'a ProcessCall list \<Rightarrow> int list \<Rightarrow> bool" where
  "exactAdditions sn (c # cs) (n # ns) =
     (isfinite (dadd sn (callOutputSampleCount c))
      \<and> val (dadd sn (callOutputSampleCount c)) = val sn + val (callOutputSampleCount c)
      \<and> exactAdditions (dsub (dadd sn (callOutputSampleCount c)) (double_of_int n)) cs ns)"
| "exactAdditions sn cs ns = True"

text \<open>The sum of the numbers of output samples that a list of calls asks for.\<close>

definition requestedSamples :: "'a ProcessCall list \<Rightarrow> real" where
  "requestedSamples calls = (\<Sum>c\<leftarrow>calls. val (callOutputSampleCount c))"

text \<open>
  Pairs of calls without input on the stretcher of the examples: the first asks for
  \<open>2 ^ -52\<close> output samples, the second for 4.
\<close>

definition driftCalls :: "nat \<Rightarrow> int ProcessCall list" where
  "driftCalls n = concat (replicate n [muteCall 0 (Fin (1 / 2 ^ 52)), muteCall 0 (Fin 4)])"

section \<open>Integers: the logarithm and the frame-count bounds\<close>

text \<open>Rules that evaluate the recursion on a numeral, bit by bit.\<close>

lemma floor_log2_numeral_simps:
  "floor_log2 0 = 0" "floor_log2 1 = 0" "floor_log2 (Suc 0) = 0"
  "floor_log2 (numeral (Num.Bit0 k)) = Suc (floor_log2 (numeral k))"
  "floor_log2 (numeral (Num.Bit1 k)) = Suc (floor_log2 (numeral k))"
proof -
  show "floor_log2 0 = 0" "floor_log2 1 = 0" "floor_log2 (Suc 0) = 0"
    by (simp_all add: floor_log2.simps)
  have a: "numeral (Num.Bit0 k) div (2::nat) = numeral k" by simp
  have b: "numeral (Num.Bit1 k) div (2::nat) = numeral k" by simp
  have c: "\<not> numeral (Num.Bit0 k) < (2::nat)" "\<not> numeral (Num.Bit1 k) < (2::nat)"
    by simp_all
  show "floor_log2 (numeral (Num.Bit0 k)) = Suc (floor_log2 (numeral k))"
    by (subst floor_log2.simps) (simp only: a c if_False)
  show "floor_log2 (numeral (Num.Bit1 k)) = Suc (floor_log2 (numeral k))"
    by (subst floor_log2.simps) (simp only: b c if_False)
qed

text \<open>The recursion computes the floor of the binary logarithm, as the spec reads \<^verbatim>\<open>log2<true>\<close>.\<close>

lemma floor_log2_log: "0 < n \<Longrightarrow> int (floor_log2 n) = \<lfloor>log 2 (real n)\<rfloor>"
proof (induction n rule: floor_log2.induct)
  case (1 n)
  show ?case
  proof (cases "n < 2")
    case True
    with 1 have "n = 1" by simp
    then show ?thesis by (simp add: floor_log2.simps)
  next
    case False
    then have "0 < n div 2" by simp
    with 1 False have "int (floor_log2 (n div 2)) = \<lfloor>log 2 (real (n div 2))\<rfloor>" by simp
    moreover have "\<lfloor>log 2 (real n)\<rfloor> = \<lfloor>log 2 (real (n div 2))\<rfloor> + 1"
      using False by (intro floor_log2_div2) simp
    ultimately show ?thesis using False by (subst floor_log2.simps) simp
  qed
qed

lemma log2_floor_log: "0 < x \<Longrightarrow> log2 x = \<lfloor>log 2 (real_of_int x)\<rfloor>"
proof -
  assume "0 < x"
  then have "0 < nat x" "real (nat x) = real_of_int x" by simp_all
  then show ?thesis using floor_log2_log [of "nat x"] by (simp add: log2_def)
qed

lemma floor_log2_mono: "m \<le> n \<Longrightarrow> floor_log2 m \<le> floor_log2 n"
proof (induction n arbitrary: m rule: floor_log2.induct)
  case (1 n)
  show ?case
  proof (cases "m < 2")
    case True
    then show ?thesis by (simp add: floor_log2.simps[of m])
  next
    case False
    with 1 have "\<not> n < 2" "m div 2 \<le> n div 2" by (simp_all add: div_le_mono)
    with 1 have "floor_log2 (m div 2) \<le> floor_log2 (n div 2)" by simp
    then show ?thesis using False \<open>\<not> n < 2\<close>
      by (simp add: floor_log2.simps[of m] floor_log2.simps[of n])
  qed
qed

lemma log2_mono: "x \<le> y \<Longrightarrow> log2 x \<le> log2 y"
  by (simp add: log2_def floor_log2_mono)

lemma lt_div_mult:
  fixes a d :: int
  assumes "0 < d"
  shows "a < (a div d + 1) * d"
proof -
  have "a = d * (a div d) + a mod d" by simp
  moreover have "a mod d < d" using assms by simp
  ultimately have "a < d * (a div d) + d" by linarith
  then show ?thesis by (simp add: algebra_simps)
qed

lemma bound_fits:
  fixes n d s :: int
  assumes "0 < n" "0 < d" "d < 2 ^ 31" "0 \<le> s" "(n * 2 ^ nat s) div d + 1 < 2 ^ 31"
  shows "n * 2 ^ nat s < 2 ^ 62" and "s < 62"
proof -
  define a where "a = n * 2 ^ nat s"
  define q where "q = a div d + 1"
  have q: "q < 2 ^ 31" using assms(5) by (simp add: q_def a_def)
  have q0: "0 < q"
  proof -
    have "0 \<le> a" using \<open>0 < n\<close> by (simp add: a_def)
    then have "0 \<le> a div d" using \<open>0 < d\<close> by (simp add: pos_imp_zdiv_nonneg_iff)
    then show ?thesis by (simp add: q_def)
  qed
  have "a < q * d" unfolding q_def by (rule lt_div_mult [OF \<open>0 < d\<close>])
  also have "q * d \<le> 2 ^ 31 * d" using q \<open>0 < d\<close> by (intro mult_right_mono) simp_all
  also have "2 ^ 31 * d \<le> 2 ^ 31 * 2 ^ 31" using \<open>d < 2 ^ 31\<close> by (intro mult_left_mono) simp_all
  also have "(2::int) ^ 31 * 2 ^ 31 = 2 ^ 62" by simp
  finally have a: "a < 2 ^ 62" .
  then show "n * 2 ^ nat s < 2 ^ 62" by (simp add: a_def)
  define p :: int where "p = 2 ^ nat s"
  have "0 < p" by (simp add: p_def)
  then have "1 * p \<le> n * p" using \<open>0 < n\<close> by (intro mult_right_mono) simp_all
  moreover have "n * p < 2 ^ 62" using a by (simp only: a_def p_def)
  ultimately have "p < 2 ^ 62" by linarith
  then have "(2::int) ^ nat s < 2 ^ 62" by (simp only: p_def)
  then have "nat s < 62" by (rule power_less_imp_less_exp [rotated]) simp
  then show "s < 62" by simp
qed

lemma frame_count_exact:
  fixes n d s :: int
  assumes "0 < n" "0 < d" "d < 2 ^ 31" "0 \<le> s" "(n * 2 ^ nat s) div d + 1 < 2 ^ 31"
  shows "(case shl64 n s of None \<Rightarrow> None
          | Some shifted \<Rightarrow> if d = 0 then None
              else let max = tdiv shifted d
                   in if 2 ^ 63 \<le> max + 1 then None else Some (to_int32 (max + 1)))
         = Some ((n * 2 ^ nat s) div d + 1)"
proof -
  define a where "a = n * 2 ^ nat s"
  have a: "a < 2 ^ 62" and s: "s < 62" using bound_fits [OF assms] by (simp_all add: a_def)
  have a0: "0 < a" using \<open>0 < n\<close> by (simp add: a_def)
  have "to_int64 a = a" unfolding to_int64_def
  proof (rule signed_take_bit_int_eq_self)
    show "- (2 ^ 63) \<le> a" using a0 by simp
    show "a < 2 ^ 63" using a by simp
  qed
  then have sh: "shl64 n s = Some a" using s \<open>0 \<le> s\<close> by (simp add: shl64_def a_def)
  have q0: "0 \<le> a div d" using a0 \<open>0 < d\<close> by (simp add: pos_imp_zdiv_nonneg_iff)
  have td: "tdiv a d = a div d" using a0 \<open>0 < d\<close> by (simp add: tdiv_def)
  have q1: "a div d + 1 < 2 ^ 31" using assms(5) by (simp add: a_def)
  have t32: "to_int32 (a div d + 1) = a div d + 1" unfolding to_int32_def
  proof (rule signed_take_bit_int_eq_self)
    show "- (2 ^ 31) \<le> a div d + 1" using q0 by simp
    show "a div d + 1 < 2 ^ 31" by (rule q1)
  qed
  have "\<not> 2 ^ 63 \<le> a div d + 1" using q1 by simp
  then show ?thesis using sh td t32 \<open>0 < d\<close> by (simp add: Let_def a_def)
qed

lemma idealBound_pos: "0 < n \<Longrightarrow> 0 < d \<Longrightarrow> 0 < idealBound n s d"
proof -
  assume "0 < n" "0 < d"
  then have "0 \<le> (n * 2 ^ nat s) div d" by (simp add: pos_imp_zdiv_nonneg_iff)
  then show ?thesis by (simp add: idealBound_def)
qed

lemma idealBound_mono:
  assumes "0 \<le> n" "n \<le> n'" "s \<le> s'" "0 < d"
  shows "idealBound n s d \<le> idealBound n' s' d"
proof -
  have "(2::int) ^ nat s \<le> 2 ^ nat s'" using assms(3) by (intro power_increasing) simp_all
  then have "n * 2 ^ nat s \<le> n' * 2 ^ nat s'" using assms(1,2) by (intro mult_mono) simp_all
  then have "(n * 2 ^ nat s) div d \<le> (n' * 2 ^ nat s') div d" using \<open>0 < d\<close> by (rule zdiv_mono1)
  then show ?thesis by (simp add: idealBound_def)
qed

lemma supported_maxInput:
  assumes "supportedTiming rates adjust"
  shows "maxInputFrameCount (Timing_new rates adjust)
         = Some (spec_maxInputFrameCount rates (log2SynthesisHop (Timing_new rates adjust)))"
proof -
  define hop where "hop = log2SynthesisHop (Timing_new rates adjust)"
  have h: "0 < inputRate rates" "0 < outputRate rates" "outputRate rates < 2 ^ 31"
    "0 \<le> maxPitchOctaves + hop + 3"
    "(inputRate rates * 2 ^ nat (maxPitchOctaves + hop + 3)) div outputRate rates + 1 < 2 ^ 31"
    using assms by (simp_all add: supportedTiming_def Let_def hop_def spec_maxInputFrameCount_def)
  have sr: "sampleRates (Timing_new rates adjust) = rates" by (simp add: Timing_new_def)
  show ?thesis
    unfolding maxInputFrameCount_def spec_maxInputFrameCount_def sr hop_def [symmetric]
    by (rule frame_count_exact [OF h])
qed

lemma supported_maxOutput:
  assumes "supportedTiming rates adjust"
  shows "maxOutputFrameCount (Timing_new rates adjust)
         = Some (spec_maxOutputFrameCount rates (log2SynthesisHop (Timing_new rates adjust)))"
proof -
  define hop where "hop = log2SynthesisHop (Timing_new rates adjust)"
  have h: "0 < outputRate rates" "0 < inputRate rates" "inputRate rates < 2 ^ 31"
    "0 \<le> maxPitchOctaves + hop"
    "(outputRate rates * 2 ^ nat (maxPitchOctaves + hop)) div inputRate rates + 1 < 2 ^ 31"
    using assms by (simp_all add: supportedTiming_def Let_def hop_def spec_maxOutputFrameCount_def)
  have sr: "sampleRates (Timing_new rates adjust) = rates" by (simp add: Timing_new_def)
  show ?thesis
    unfolding maxOutputFrameCount_def spec_maxOutputFrameCount_def sr hop_def [symmetric]
    by (rule frame_count_exact [OF h])
qed

lemma spec_maxInput_eq: "spec_maxInputFrameCount rates hop =
    idealBound (inputRate rates) (maxPitchOctaves + hop + 3) (outputRate rates)"
  by (simp add: spec_maxInputFrameCount_def idealBound_def)

lemma spec_maxOutput_eq: "spec_maxOutputFrameCount rates hop =
    idealBound (outputRate rates) (maxPitchOctaves + hop) (inputRate rates)"
  by (simp add: spec_maxOutputFrameCount_def idealBound_def)

text \<open>
  Claim C6, as amended.  For sample rates and an adjustment that \<^verbatim>\<open>Timing\<close> supports, the
  constructor sets \<open>log2SynthesisHop\<close> to \<open>floor(log2(sampleRates.input)) - 6 + log2SynthesisHopAdjust\<close>,
  \<open>maxInputFrameCount()\<close> returns
  \<open>((sampleRates.input << (maxPitchOctaves + log2SynthesisHop + 3)) / sampleRates.output) + 1\<close> and
  \<open>maxOutputFrameCount()\<close> returns
  \<open>((sampleRates.output << (maxPitchOctaves + log2SynthesisHop)) / sampleRates.input) + 1\<close>, the
  shift and the division being those of the integers.  The claim as written asks this of all
  positive rates; the functions return an \<^verbatim>\<open>int\<close>, so it holds where the bounds are values of
  \<^verbatim>\<open>int\<close> (part of \<open>supportedTiming\<close>), and the counterexample below shows a pair of positive
  rates where the value returned is not the value of the formula.
\<close>

theorem Timing_frame_counts:
  assumes "supportedTiming rates adjust"
  shows "log2SynthesisHop (Timing_new rates adjust) = spec_log2SynthesisHop rates adjust
       \<and> maxInputFrameCount (Timing_new rates adjust)
           = Some (spec_maxInputFrameCount rates (spec_log2SynthesisHop rates adjust))
       \<and> maxOutputFrameCount (Timing_new rates adjust)
           = Some (spec_maxOutputFrameCount rates (spec_log2SynthesisHop rates adjust))"
proof -
  have "0 < inputRate rates" using assms by (simp add: supportedTiming_def Let_def)
  then have hop: "log2SynthesisHop (Timing_new rates adjust) = spec_log2SynthesisHop rates adjust"
    by (simp add: Timing_new_def spec_log2SynthesisHop_def log2_floor_log)
  show ?thesis
    using supported_maxInput [OF assms] supported_maxOutput [OF assms] hop by simp
qed

text \<open>The definitions that evaluate the functions of \<^verbatim>\<open>Timing.cpp\<close> at given rates.\<close>

lemmas timing_eval = maxInputFrameCount_def maxOutputFrameCount_def Timing_new_def log2_def
  floor_log2_numeral_simps maxPitchOctaves_def shl64_def to_int64_def to_int32_def tdiv_def
  supportedTiming_def spec_maxInputFrameCount_def spec_maxOutputFrameCount_def Let_def

text \<open>The theorem at 44100 Hz in and 48000 Hz out, with no adjustment.\<close>

theorem Timing_frame_counts_witness:
  "supportedTiming \<lparr>inputRate = 44100, outputRate = 48000\<rparr> 0
   \<and> maxInputFrameCount (Timing_new \<lparr>inputRate = 44100, outputRate = 48000\<rparr> 0) = Some 15053
   \<and> maxOutputFrameCount (Timing_new \<lparr>inputRate = 44100, outputRate = 48000\<rparr> 0) = Some 2230
   \<and> spec_log2SynthesisHop \<lparr>inputRate = 44100, outputRate = 48000\<rparr> 0 = 9"
proof -
  have s: "supportedTiming \<lparr>inputRate = 44100, outputRate = 48000\<rparr> 0"
    by (simp add: timing_eval)
  have "log2SynthesisHop (Timing_new \<lparr>inputRate = 44100, outputRate = 48000\<rparr> 0) = 9"
    by (simp add: timing_eval)
  with Timing_frame_counts [OF s] have h: "spec_log2SynthesisHop \<lparr>inputRate = 44100, outputRate = 48000\<rparr> 0 = 9"
    by simp
  show ?thesis using s h Timing_frame_counts [OF s]
    by (simp add: spec_maxInputFrameCount_def spec_maxOutputFrameCount_def maxPitchOctaves_def)
qed

text \<open>
  Claim C6 as written fails at 65536 Hz in and 1 Hz out: the formula gives \<open>2 ^ 31 + 1\<close>,
  which the conversion to \<^verbatim>\<open>int\<close> turns into \<open>- (2 ^ 31) + 1\<close>.
\<close>

theorem Timing_frame_counts_counterexample:
  "0 < inputRate \<lparr>inputRate = 65536, outputRate = 1\<rparr>
   \<and> 0 < outputRate \<lparr>inputRate = 65536, outputRate = 1\<rparr>
   \<and> log2SynthesisHop (Timing_new \<lparr>inputRate = 65536, outputRate = 1\<rparr> 0) = 10
   \<and> maxInputFrameCount (Timing_new \<lparr>inputRate = 65536, outputRate = 1\<rparr> 0) = Some (- 2147483647)
   \<and> spec_maxInputFrameCount \<lparr>inputRate = 65536, outputRate = 1\<rparr> 10 = 2147483649"
  by (simp add: timing_eval)

text \<open>
  Claim C7, as amended.  For sample rates and an adjustment that \<^verbatim>\<open>Timing\<close> supports,
  \<open>maxInputFrameCount()\<close> and \<open>maxOutputFrameCount()\<close> are positive; \<open>maxInputFrameCount()\<close> does
  not decrease when the input rate grows to that of supported rates \<open>rI\<close> with the same output
  rate, and \<open>maxOutputFrameCount()\<close> does not decrease when the output rate grows to that of
  supported rates \<open>rO\<close> with the same input rate.  The claim as written asks this of all
  positive rates; the counterexample below shows positive rates with a negative
  \<open>maxInputFrameCount()\<close>.
\<close>

theorem frame_counts_positive_monotone:
  assumes "supportedTiming r adjust" "supportedTiming rI adjust" "supportedTiming rO adjust"
    and "outputRate rI = outputRate r" "inputRate r \<le> inputRate rI"
    and "inputRate rO = inputRate r" "outputRate r \<le> outputRate rO"
  shows "\<exists>a b aI bO.
           maxInputFrameCount (Timing_new r adjust) = Some a \<and> 0 < a
         \<and> maxOutputFrameCount (Timing_new r adjust) = Some b \<and> 0 < b
         \<and> maxInputFrameCount (Timing_new rI adjust) = Some aI \<and> a \<le> aI
         \<and> maxOutputFrameCount (Timing_new rO adjust) = Some bO \<and> b \<le> bO"
proof -
  define hop where "hop = log2SynthesisHop (Timing_new r adjust)"
  define hopI where "hopI = log2SynthesisHop (Timing_new rI adjust)"
  define hopO where "hopO = log2SynthesisHop (Timing_new rO adjust)"
  have pos: "0 < inputRate r" "0 < outputRate r"
    using assms(1) by (simp_all add: supportedTiming_def Let_def)
  have hI: "hop \<le> hopI"
    using assms(5) by (simp add: hop_def hopI_def Timing_new_def log2_mono)
  have hO: "hopO = hop"
    using assms(6) by (simp add: hop_def hopO_def Timing_new_def)
  have a: "0 < spec_maxInputFrameCount r hop" "0 < spec_maxOutputFrameCount r hop"
    using pos by (simp_all add: spec_maxInput_eq spec_maxOutput_eq idealBound_pos)
  have "spec_maxInputFrameCount r hop \<le> spec_maxInputFrameCount rI hopI"
    unfolding spec_maxInput_eq assms(4)
    using pos assms(5) hI by (intro idealBound_mono) simp_all
  moreover have "spec_maxOutputFrameCount r hop \<le> spec_maxOutputFrameCount rO hopO"
    unfolding spec_maxOutput_eq assms(6) hO
    using pos assms(7) by (intro idealBound_mono) simp_all
  ultimately show ?thesis
    using a supported_maxInput [OF assms(1)] supported_maxOutput [OF assms(1)]
      supported_maxInput [OF assms(2)] supported_maxOutput [OF assms(3)]
    by (simp add: hop_def hopI_def hopO_def)
qed

text \<open>The theorem at 44100 Hz in and out, against 96000 Hz in and against 48000 Hz out.\<close>

theorem frame_counts_positive_monotone_witness:
  "supportedTiming \<lparr>inputRate = 44100, outputRate = 44100\<rparr> 0
   \<and> supportedTiming \<lparr>inputRate = 96000, outputRate = 44100\<rparr> 0
   \<and> supportedTiming \<lparr>inputRate = 44100, outputRate = 48000\<rparr> 0
   \<and> (\<exists>a b aI bO.
           maxInputFrameCount (Timing_new \<lparr>inputRate = 44100, outputRate = 44100\<rparr> 0) = Some a \<and> 0 < a
         \<and> maxOutputFrameCount (Timing_new \<lparr>inputRate = 44100, outputRate = 44100\<rparr> 0) = Some b \<and> 0 < b
         \<and> maxInputFrameCount (Timing_new \<lparr>inputRate = 96000, outputRate = 44100\<rparr> 0) = Some aI \<and> a \<le> aI
         \<and> maxOutputFrameCount (Timing_new \<lparr>inputRate = 44100, outputRate = 48000\<rparr> 0) = Some bO \<and> b \<le> bO)"
proof -
  have s: "supportedTiming \<lparr>inputRate = 44100, outputRate = 44100\<rparr> 0"
    "supportedTiming \<lparr>inputRate = 96000, outputRate = 44100\<rparr> 0"
    "supportedTiming \<lparr>inputRate = 44100, outputRate = 48000\<rparr> 0"
    by (simp_all add: timing_eval)
  show ?thesis
    using s frame_counts_positive_monotone [OF s] by simp
qed

text \<open>
  Claim C7 as written fails at 192000 Hz in and 1 Hz out: the bound of the formula,
  \<open>12582912001\<close>, is not a value of \<^verbatim>\<open>int\<close>, and the function returns a negative number.
\<close>

theorem frame_counts_positive_counterexample:
  "0 < inputRate \<lparr>inputRate = 192000, outputRate = 1\<rparr>
   \<and> 0 < outputRate \<lparr>inputRate = 192000, outputRate = 1\<rparr>
   \<and> maxInputFrameCount (Timing_new \<lparr>inputRate = 192000, outputRate = 1\<rparr> 0) = Some (- 301989887)
   \<and> \<not> 0 < (- 301989887 :: int)"
  by (simp add: timing_eval)


section \<open>The input buffer\<close>

text \<open>
  Claim C9.  Whenever \<open>analyseGrain\<close> of the window forwards a grain to the stretcher, it
  passes \<open>muteHead = begin - inputChunk.begin\<close> and \<open>muteTail = inputChunk.end - end\<close>, both
  values of \<^verbatim>\<open>int\<close>, the stride of the window, and a pointer into the array of the window
  itself, \<open>muteHead\<close> samples before its first element: no sample is copied or moved.
\<close>

theorem analyseGrain_call:
  assumes "analyseGrain ib = Inr call"
  shows "muteFrameCountHead call = bufBegin ib - chunkBegin (inputChunk ib)
       \<and> muteFrameCountTail call = chunkEnd (inputChunk ib) - bufEnd ib
       \<and> int32 (muteFrameCountHead call) \<and> int32 (muteFrameCountTail call)
       \<and> dataArray call = buffer ib
       \<and> dataOffset call = - muteFrameCountHead call
       \<and> dataChannelStride call = channelStride ib"
  using assms by (auto simp add: analyseGrain_def Let_def split: if_splits)

text \<open>
  The theorem at a window that holds the frames 3 to 7 while the grain asks for the frames
  1 to 6: two frames are mute at the head, and the window reaches one frame past the grain.
\<close>

theorem analyseGrain_call_witness:
  "analyseGrain exampleMutedWindow
     = Inr \<lparr>dataArray = buffer exampleMutedWindow, dataOffset = - 2, dataChannelStride = 15,
            muteFrameCountHead = 2, muteFrameCountTail = - 1\<rparr>
   \<and> bufBegin exampleMutedWindow - chunkBegin (inputChunk exampleMutedWindow) = 2
   \<and> chunkEnd (inputChunk exampleMutedWindow) - bufEnd exampleMutedWindow = - 1"
proof -
  have a: "analyseGrain exampleMutedWindow
     = Inr \<lparr>dataArray = buffer exampleMutedWindow, dataOffset = - 2, dataChannelStride = 15,
            muteFrameCountHead = 2, muteFrameCountTail = - 1\<rparr>"
    by (simp add: analyseGrain_def exampleMutedWindow_def int32_def)
  show ?thesis using a analyseGrain_call [OF a] by simp
qed

text \<open>
  The two subtractions are those of \<^verbatim>\<open>int\<close>: where one of them leaves the type, as at
  \<open>begin = 2147483647\<close> and \<open>inputChunk.begin = - 1\<close>, the call is undefined and nothing is
  forwarded.
\<close>

lemma analyseGrain_overflow:
  "analyseGrain \<lparr>channelStride = 15, channelCount = 1, buffer = [0::int],
                 bufBegin = 2147483647, bufEnd = 2147483647,
                 inputChunk = \<lparr>chunkBegin = - 1, chunkEnd = 7\<rparr>\<rparr> = Inl Undefined"
  by (simp add: analyseGrain_def int32_def)


section \<open>Timing: preroll and next\<close>

text \<open>The definitions that evaluate the arithmetic of \<^verbatim>\<open>double\<close> at given numbers.\<close>

lemmas double_eval = floor_log2_numeral_simps binade_def ceil_log2_def rnd_def roundEven_def
  Let_def dsub_def dmul_def ddiv_def double_of_int_def integral_signed_def zero_signed_def
  inf_signed_def int32_def dgreater_def




lemma calculateInputHop_defined:
  assumes "0 \<le> log2SynthesisHop t" "log2SynthesisHop t < 32"
  shows "\<exists>hop. calculateInputHop S t r = Some hop"
  using assms by (simp add: calculateInputHop_def shl32_def Let_def)

text \<open>
  Claim C4.  For every request, with a timing whose hop \<open>1 << log2SynthesisHop\<close> is defined:
  if \<open>request.speed\<close> and \<open>request.position\<close> are both finite, \<open>next\<close> adds
  \<open>calculateInputHop(request)\<close> to \<open>request.position\<close> and sets \<open>request.reset\<close> to false; if
  either is a NaN, the request, and with it \<open>request.position\<close>, is left unchanged.
\<close>

theorem Timing_next_advances:
  assumes "0 \<le> log2SynthesisHop t" "log2SynthesisHop t < 32"
  shows "(isfinite (speed r) \<and> isfinite (position r) \<longrightarrow>
            (\<exists>hop. calculateInputHop S t r = Some hop
                  \<and> Timing_next S t r = Some (r\<lparr>position := dadd (position r) hop, reset := False\<rparr>)))
       \<and> (isnan (speed r) \<or> isnan (position r) \<longrightarrow> Timing_next S t r = Some r)"
proof -
  obtain hop where hop: "calculateInputHop S t r = Some hop"
    using calculateInputHop_defined [OF assms] by blast
  have "\<not> isnan x" if "isfinite x" for x using that by (cases x) simp_all
  then show ?thesis using hop by (auto simp add: Timing_next_def)
qed

lemmas timing_hop_eval = calculateInputHop_def shl32_def to_int32_def exampleTiming_def
  Timing_new_def log2_def unitSetup_def

text \<open>
  The theorem at position 1000, where the hop is 512, and at a position that is the NaN.
\<close>

theorem Timing_next_advances_witness:
  "Timing_next unitSetup exampleTiming exampleRequest
     = Some (exampleRequest\<lparr>position := Fin 1512, reset := False\<rparr>)
   \<and> Timing_next unitSetup exampleTiming exampleRequestNaN = Some exampleRequestNaN"
proof -
  have t: "0 \<le> log2SynthesisHop exampleTiming" "log2SynthesisHop exampleTiming < 32"
    by (simp_all add: timing_hop_eval double_eval)
  have hop: "calculateInputHop unitSetup exampleTiming exampleRequest = Some (Fin 512)"
    by (simp add: timing_hop_eval double_eval exampleRequest_def)
  have sum: "dadd (position exampleRequest) (Fin 512) = Fin 1512"
    by (simp add: exampleRequest_def double_eval)
  have f: "isfinite (speed exampleRequest) \<and> isfinite (position exampleRequest)"
    by (simp add: exampleRequest_def)
  have n: "isnan (position exampleRequestNaN)" by (simp add: exampleRequestNaN_def)
  show ?thesis
    using Timing_next_advances [OF t, of exampleRequest unitSetup]
      Timing_next_advances [OF t, of exampleRequestNaN unitSetup] hop sum f n
    by auto
qed

text \<open>
  Claim C10.  \<open>preroll\<close> and \<open>next\<close> change at most the fields \<open>position\<close> and \<open>reset\<close> of the
  request: \<open>speed\<close>, \<open>pitch\<close> and \<open>resampleMode\<close> are as before.  Both are functions of the timing
  and the request that return a request only, as the \<^verbatim>\<open>const\<close> member functions of the source
  leave the timing as it is.
\<close>

theorem Timing_frame:
  "(Timing_preroll S t r = Some r' \<longrightarrow>
       r' = r\<lparr>position := position r', reset := reset r'\<rparr>
       \<and> speed r' = speed r \<and> pitch r' = pitch r \<and> resampleMode r' = resampleMode r)
   \<and> (Timing_next S t r = Some r'' \<longrightarrow>
       r'' = r\<lparr>position := position r'', reset := reset r''\<rparr>
       \<and> speed r'' = speed r \<and> pitch r'' = pitch r \<and> resampleMode r'' = resampleMode r)"
  by (auto simp add: Timing_preroll_def Timing_next_def split: option.splits if_splits)

text \<open>The theorem at position 1000, for \<open>preroll\<close> and for \<open>next\<close>.\<close>

theorem Timing_frame_witness:
  "Timing_preroll unitSetup exampleTiming exampleRequest
     = Some (exampleRequest\<lparr>position := Fin 488, reset := True\<rparr>)
   \<and> Timing_next unitSetup exampleTiming exampleRequest
     = Some (exampleRequest\<lparr>position := Fin 1512, reset := False\<rparr>)
   \<and> speed (exampleRequest\<lparr>position := Fin 488, reset := True\<rparr>) = speed exampleRequest
   \<and> pitch (exampleRequest\<lparr>position := Fin 1512, reset := False\<rparr>) = pitch exampleRequest"
proof -
  have hop: "calculateInputHop unitSetup exampleTiming exampleRequest = Some (Fin 512)"
    by (simp add: timing_hop_eval double_eval exampleRequest_def)
  have a: "Timing_preroll unitSetup exampleTiming exampleRequest
     = Some (exampleRequest\<lparr>position := Fin 488, reset := True\<rparr>)"
    using hop by (simp add: Timing_preroll_def exampleRequest_def double_eval)
  have b: "Timing_next unitSetup exampleTiming exampleRequest
     = Some (exampleRequest\<lparr>position := Fin 1512, reset := False\<rparr>)"
    using hop by (simp add: Timing_next_def exampleRequest_def double_eval)
  show ?thesis
    using a b Timing_frame [of unitSetup exampleTiming exampleRequest
        "exampleRequest\<lparr>position := Fin 488, reset := True\<rparr>"
        "exampleRequest\<lparr>position := Fin 1512, reset := False\<rparr>"]
    by simp
qed







section \<open>The window and its capacity\<close>

lemma replicate_numeral: "replicate (numeral k) x = x # replicate (pred_numeral k) x"
  by (simp add: numeral_eq_Suc)

lemma Stream_new_example:
  "Stream_new (exampleStretcher frames) exampleIdle 2 1
   = Inr ((exampleWaiting 0 0)\<lparr>request := exampleIdle\<rparr>)"
  by (simp add: Stream_new_def InputBuffer_new_def exampleStretcher_def int32_def
      exampleWaiting_def exampleFullWindow_def replicate_numeral exampleIdle_def)

lemma append_waiting:
  assumes "e \<in> {0, 2, 4, 6, 8}"
  shows "append (exampleFullWindow\<lparr>bufEnd := e\<rparr>) 2 None = Inr (exampleFullWindow\<lparr>bufEnd := e + 2\<rparr>)"
  using assms
  by (auto simp add: append_def shiftWindow_def writeChannel_def writeRange_def int32_def
      advanceWindow_def replicate_numeral exampleFullWindow_def)

lemma full_window_end: "exampleFullWindow\<lparr>bufEnd := 10\<rparr> = exampleFullWindow"
  by (simp add: exampleFullWindow_def)

lemma append_full: "append exampleFullWindow 2 None = Inl OutOfBounds"
  by (simp add: append_def exampleFullWindow_def shiftWindow_def writeChannel_def writeRange_def
      int32_def)

lemma sixteenth_eval:
  "double_of_int 0 = Fin 0" "double_of_int 2 = Fin 2" "ddiv (Fin 2) (Fin (1 / 16)) = Fin 32"
  "dfloor (Fin (1 / 16)) = Fin 0"
  by (simp_all add: double_eval)

text \<open>
  A call with 2 mute input samples that asks for a sixteenth of an output sample, while the
  samples needed round to 0: the loop does not run, and the window grows by 2 frames.
\<close>

lemma process_waiting:
  assumes "e \<in> {0, 2, 4, 6, 8}" "rnd (sn + 1 / 16) = Fin sn'" "\<lfloor>sn' + 1 / 2\<rfloor> = 0" "0 \<le> sn'"
    "rnd sn' = Fin sn'"
  shows "process 0 (exampleStretcher frames) ((exampleWaiting e sn)\<lparr>request := r\<rparr>) None out 2
           (Fin (1 / 16)) (Fin 1)
         = Inr (0, out, (exampleWaiting (e + 2) sn')\<lparr>request := r\<lparr>speed := Fin 32, pitch := Fin 1\<rparr>\<rparr>)"
  using assms(1,4)
  by (simp add: process_def processBody_def exampleWaiting_def append_waiting sixteenth_eval
      assms(2,3,5) integral_signed_def dsub_def)

lemma sixteenth_sums:
  "rnd (0 + 1 / 16) = Fin (1 / 16)" "rnd (1 / 16) = Fin (1 / 16)"
  "rnd (1 / 16 + 1 / 16) = Fin (1 / 8)" "rnd (1 / 8) = Fin (1 / 8)"
  "rnd (1 / 8 + 1 / 16) = Fin (3 / 16)" "rnd (3 / 16) = Fin (3 / 16)"
  "rnd (3 / 16 + 1 / 16) = Fin (1 / 4)" "rnd (1 / 4) = Fin (1 / 4)"
  "rnd (1 / 4 + 1 / 16) = Fin (5 / 16)" "rnd (5 / 16) = Fin (5 / 16)"
  "rnd (5 / 16 + 1 / 16) = Fin (3 / 8)" "rnd (3 / 8) = Fin (3 / 8)"
  by (simp_all add: double_eval)

lemma waiting_five_calls:
  "processFresh 0 (exampleStretcher frames) exampleIdle 2 1 (replicate 5 (muteCall 2 (Fin (1 / 16))))
   = Inr ([0, 0, 0, 0, 0], exampleWaiting 10 (5 / 16))"
  apply (simp add: processFresh_def Stream_new_example muteCall_def replicate_numeral)
  apply (simp add: process_waiting [where sn' = "1 / 16"] sixteenth_sums)
  apply (simp add: process_waiting [where sn' = "1 / 8"] sixteenth_sums)
  apply (simp add: process_waiting [where sn' = "3 / 16"] sixteenth_sums)
  apply (simp add: process_waiting [where sn' = "1 / 4"] sixteenth_sums)
  apply (simp add: process_waiting [where sn' = "5 / 16"] sixteenth_sums)
  apply (simp add: exampleWaiting_def exampleIdle_def)
  done

lemma waiting_six_calls:
  "processFresh 0 (exampleStretcher frames) exampleIdle 2 1 (replicate 6 (muteCall 2 (Fin (1 / 16))))
   = Inl OutOfBounds"
  apply (simp add: processFresh_def Stream_new_example muteCall_def replicate_numeral)
  apply (simp add: process_waiting [where sn' = "1 / 16"] sixteenth_sums)
  apply (simp add: process_waiting [where sn' = "1 / 8"] sixteenth_sums)
  apply (simp add: process_waiting [where sn' = "3 / 16"] sixteenth_sums)
  apply (simp add: process_waiting [where sn' = "1 / 4"] sixteenth_sums)
  apply (simp add: process_waiting [where sn' = "5 / 16"] sixteenth_sums)
  apply (simp add: process_def processBody_def exampleWaiting_def full_window_end append_full)
  done

text \<open>
  Claim C3.  The window of a stream of one channel on a stretcher with
  \<open>maxInputFrameCount() = 8\<close>, sized for calls with up to 2 input samples, has the capacity 10.
  Five calls of \<open>process\<close> on the fresh stream, each with 2 mute input samples and a sixteenth
  of an output sample, return 0 and specify no grain; they leave the window full, with
  \<open>begin = 0\<close>, \<open>end = 10\<close> and the empty \<open>inputChunk\<close> of the constructor, so that
  \<open>begin \<le> end\<close>, \<open>end - begin \<le> capacity\<close> and the bounds of the grain protocol hold.  The next
  \<open>append\<close> of 2 samples discards nothing and writes the two samples past the end of the array;
  the assertion \<open>end - begin \<le> channelStride\<close> that follows the write fails as well.  So the
  sixth call of \<open>process\<close> does not return.
\<close>

theorem append_overruns_full_window:
  "windowInvariant exampleFullWindow
   \<and> channelStride exampleFullWindow = 8 + 2
   \<and> inputChunk exampleFullWindow = \<lparr>chunkBegin = 0, chunkEnd = 0\<rparr>
   \<and> append exampleFullWindow 2 None = Inl OutOfBounds
   \<and> advanceWindow exampleFullWindow 0 2 = Inl AssertionFailed
   \<and> (\<exists>st. processFresh 0 (exampleStretcher 4) exampleIdle 2 1
               (replicate 5 (muteCall 2 (Fin (1 / 16)))) = Inr ([0, 0, 0, 0, 0], st)
            \<and> inputBuffer st = exampleFullWindow)
   \<and> processFresh 0 (exampleStretcher 4) exampleIdle 2 1
        (replicate 6 (muteCall 2 (Fin (1 / 16)))) = Inl OutOfBounds"
proof -
  have "windowInvariant exampleFullWindow" "channelStride exampleFullWindow = 8 + 2"
    "inputChunk exampleFullWindow = \<lparr>chunkBegin = 0, chunkEnd = 0\<rparr>"
    by (simp_all add: windowInvariant_def exampleFullWindow_def)
  moreover have "advanceWindow exampleFullWindow 0 2 = Inl AssertionFailed"
    by (simp add: advanceWindow_def exampleFullWindow_def int32_def)
  moreover have "inputBuffer (exampleWaiting 10 (5 / 16)) = exampleFullWindow"
    by (simp add: exampleWaiting_def full_window_end)
  ultimately show ?thesis
    using append_full waiting_five_calls [of 4] waiting_six_calls [of 4] by simp
qed


section \<open>The number of samples that a call returns\<close>

text \<open>One round of the loop, for a number of rounds given as a numeral.\<close>

lemma processLoop_numeral:
  "processLoop (numeral k) S inputSampleCount outputSampleCount processGrain
       (st, outputPointers, sampleCounter) =
     (if deq (double_of_int sampleCounter) (dround (samplesNeeded st))
      then Inr (st, outputPointers, sampleCounter)
      else
        (case (if processGrain then
                 (case synthesisePrevious S st of
                    Inl e \<Rightarrow> Inl e
                  | Inr st1 \<Rightarrow> specifyNext S st1 inputSampleCount outputSampleCount sampleCounter)
               else Inr st) of
           Inl e \<Rightarrow> Inl e
         | Inr st2 \<Rightarrow>
             (case emitSamples S st2 outputPointers sampleCounter of
                Inl e \<Rightarrow> Inl e
              | Inr next \<Rightarrow>
                  processLoop (pred_numeral k) S inputSampleCount outputSampleCount True next)))"
  by (simp add: numeral_eq_Suc)

lemmas loop_eval = processLoop_numeral synthesisePrevious_def specifyNext_def grainPosition_def
  emitSamples_def analyseGrain_def endPosition_def tdiv_def copyOut_def

lemma ceiling_minus_one: "\<lceil>- 1 :: real\<rceil> = - 1"
  using ceiling_of_int [of "- 1", where ?'a = real] by simp

text \<open>
  The first call on the fresh stream, with 2 mute input samples and \<open>1.5 - 2 ^ -52\<close> output
  samples: the loop runs three rounds and emits one sample.
\<close>

lemma first_call_loop:
  "map_sum id (\<lambda>(st, out, n). (st, n))
     (processBody 3 (exampleStretcher 4) ((exampleWaiting 0 0)\<lparr>request := exampleIdle\<rparr>) None
        (\<lambda>c k. 0) 2 (Fin (3 / 2 - 1 / 2 ^ 52)) (Fin 1))
   = Inr (exampleCarrying\<lparr>samplesNeeded := Fin (3 / 2 - 1 / 2 ^ 52)\<rparr>, 1)"
  apply (simp add: processBody_def exampleWaiting_def append_waiting)
  apply (simp add: double_eval exampleIdle_def)
  apply (simp add: loop_eval double_eval exampleStretcher_def exampleFullWindow_def int32_def)
  apply (simp add: exampleCarrying_def exampleFullWindow_def)
  done

lemma first_call_body:
  "\<exists>out. processBody 3 (exampleStretcher 4) ((exampleWaiting 0 0)\<lparr>request := exampleIdle\<rparr>) None
           (\<lambda>c k. 0) 2 (Fin (3 / 2 - 1 / 2 ^ 52)) (Fin 1)
         = Inr (exampleCarrying\<lparr>samplesNeeded := Fin (3 / 2 - 1 / 2 ^ 52)\<rparr>, out, 1)"
  using first_call_loop
  by (cases "processBody 3 (exampleStretcher 4) ((exampleWaiting 0 0)\<lparr>request := exampleIdle\<rparr>) None
        (\<lambda>c k. 0) 2 (Fin (3 / 2 - 1 / 2 ^ 52)) (Fin 1)") auto

lemma first_call_eval:
  "deq (double_of_int 1) (dfloor (Fin (3 / 2 - 1 / 2 ^ 52)))"
  "dsub (Fin (3 / 2 - 1 / 2 ^ 52)) (double_of_int 1) = Fin (1 / 2 - 1 / 2 ^ 52)"
  by (simp_all add: double_eval)

lemma first_call:
  "\<exists>out. process 3 (exampleStretcher 4) ((exampleWaiting 0 0)\<lparr>request := exampleIdle\<rparr>) None
           (\<lambda>c k. 0) 2 (Fin (3 / 2 - 1 / 2 ^ 52)) (Fin 1)
         = Inr (1, out, exampleCarrying)"
proof -
  obtain out where b:
    "processBody 3 (exampleStretcher 4) ((exampleWaiting 0 0)\<lparr>request := exampleIdle\<rparr>) None
       (\<lambda>c k. 0) 2 (Fin (3 / 2 - 1 / 2 ^ 52)) (Fin 1)
     = Inr (exampleCarrying\<lparr>samplesNeeded := Fin (3 / 2 - 1 / 2 ^ 52)\<rparr>, out, 1)"
    using first_call_body by blast
  have s: "samplesNeeded (exampleCarrying\<lparr>samplesNeeded := Fin (3 / 2 - 1 / 2 ^ 52)\<rparr>)
             = Fin (3 / 2 - 1 / 2 ^ 52)"
    "exampleCarrying\<lparr>samplesNeeded := Fin (3 / 2 - 1 / 2 ^ 52),
                      samplesNeeded := Fin (1 / 2 - 1 / 2 ^ 52)\<rparr> = exampleCarrying"
    by (simp_all add: exampleCarrying_def)
  show ?thesis
    apply (simp only: process_def b sum.case prod.case first_call_eval s)
    apply simp
    done
qed

text \<open>
  The second call, with 2 mute input samples and 4 output samples: the sum
  \<open>(1 / 2 - 2 ^ -52) + 4\<close> rounds to \<open>4.5\<close>, which \<open>std::round\<close> takes to 5, and the loop emits 5
  samples in two rounds.
\<close>

lemma second_call_loop:
  "map_sum id (\<lambda>(st, out, n). (st, n))
     (processBody 3 (exampleStretcher 4) exampleCarrying None (\<lambda>c k. 0) 2 (Fin 4) (Fin 1))
   = Inr (\<lparr>streamChannelCount = 1,
            inputBuffer = exampleFullWindow\<lparr>bufEnd := 4,
                                            inputChunk := \<lparr>chunkBegin = - 5, chunkEnd = 3\<rparr>\<rparr>,
            stretcher = \<lparr>position = Fin (- (1 / 2)), speed = Fin (1 / 2), pitch = Fin 1,
                          reset = False, resampleMode = 0\<rparr>,
            request = \<lparr>position = Fin (- (1 / 2)), speed = Fin (1 / 2), pitch = Fin 1,
                        reset = False, resampleMode = 0\<rparr>,
            outputChunk = \<lparr>chunkData = \<lambda>k. 0, frameCount = 4, chunkChannelStride = 4,
                            request0 = Some (), request1 = Some ()\<rparr>,
            outputChunkConsumed = 2,
            samplesNeeded = Fin (9 / 2)\<rparr>, 5)"
  apply (simp add: processBody_def exampleCarrying_def)
  apply (simp add: append_def shiftWindow_def writeChannel_def writeRange_def advanceWindow_def
      exampleFullWindow_def int32_def replicate_numeral)
  apply (simp add: double_eval)
  apply (simp add: loop_eval double_eval exampleStretcher_def int32_def ceiling_minus_one)
  done

lemma second_call_body:
  "\<exists>st out. processBody 3 (exampleStretcher 4) exampleCarrying None (\<lambda>c k. 0) 2 (Fin 4) (Fin 1)
              = Inr (st, out, 5)
            \<and> samplesNeeded st = Fin (9 / 2)"
  using second_call_loop
  by (cases "processBody 3 (exampleStretcher 4) exampleCarrying None (\<lambda>c k. 0) 2 (Fin 4) (Fin 1)")
    auto

lemma second_call_eval:
  "\<not> deq (double_of_int 5) (dfloor (Fin 4))" "\<not> deq (double_of_int 5) (dceil (Fin 4))"
  by (simp_all add: double_eval)

lemma second_call:
  "process 3 (exampleStretcher 4) exampleCarrying None (\<lambda>c k. 0) 2 (Fin 4) (Fin 1)
   = Inl AssertionFailed"
proof -
  obtain st out where b:
    "processBody 3 (exampleStretcher 4) exampleCarrying None (\<lambda>c k. 0) 2 (Fin 4) (Fin 1)
     = Inr (st, out, 5)"
    using second_call_body by blast
  show ?thesis
    apply (simp only: process_def b sum.case prod.case)
    apply (simp only: second_call_eval)
    apply simp
    done
qed

lemma first_call_run:
  "processFresh 3 (exampleStretcher 4) exampleIdle 2 1 [muteCall 2 (Fin (3 / 2 - 1 / 2 ^ 52))]
   = Inr ([1], exampleCarrying)"
proof -
  obtain out where
    "process 3 (exampleStretcher 4) ((exampleWaiting 0 0)\<lparr>request := exampleIdle\<rparr>) None
       (\<lambda>c k. 0) 2 (Fin (3 / 2 - 1 / 2 ^ 52)) (Fin 1)
     = Inr (1, out, exampleCarrying)"
    using first_call by blast
  then show ?thesis
    by (simp only: processFresh_def Stream_new_example muteCall_def processAll.simps sum.case
        ProcessCall.simps prod.case)
qed

lemma both_calls_run:
  "processFresh 3 (exampleStretcher 4) exampleIdle 2 1
     [muteCall 2 (Fin (3 / 2 - 1 / 2 ^ 52)), muteCall 2 (Fin 4)]
   = Inl AssertionFailed"
proof -
  obtain out where
    "process 3 (exampleStretcher 4) ((exampleWaiting 0 0)\<lparr>request := exampleIdle\<rparr>) None
       (\<lambda>c k. 0) 2 (Fin (3 / 2 - 1 / 2 ^ 52)) (Fin 1)
     = Inr (1, out, exampleCarrying)"
    using first_call by blast
  then show ?thesis
    using second_call
    by (simp only: processFresh_def Stream_new_example muteCall_def processAll.simps sum.case
        ProcessCall.simps prod.case)
qed

lemma example_counts_are_doubles: "is_double (Fin (3 / 2 - 1 / 2 ^ 52))" "is_double (Fin 4)"
  by (simp_all add: double_eval)

text \<open>
  Claim C1.  Two calls of \<open>process\<close> on a fresh stream of one channel, on the stretcher that
  synthesises 4 frames a grain, each with 2 mute input samples.  The first asks for
  \<open>1.5 - 2 ^ -52\<close> output samples, a \<^verbatim>\<open>double\<close>: it returns 1, the floor, and leaves
  \<open>samplesNeeded = 0.5 - 2 ^ -52\<close>.  The second asks for 4 output samples.  The sum
  \<open>samplesNeeded + 4\<close> is rounded to the \<^verbatim>\<open>double\<close> \<open>4.5\<close>, \<open>std::round\<close> gives 5, and the loop
  ends with 5 samples emitted, which is neither \<open>floor(4)\<close> nor \<open>ceil(4)\<close>: the assertion at
  the end of \<open>process\<close> fails.
\<close>

theorem process_emits_beyond_ceil:
  "is_double (Fin (3 / 2 - 1 / 2 ^ 52)) \<and> is_double (Fin 4)
   \<and> processFresh 3 (exampleStretcher 4) exampleIdle 2 1 [muteCall 2 (Fin (3 / 2 - 1 / 2 ^ 52))]
       = Inr ([1], exampleCarrying)
   \<and> dadd (samplesNeeded exampleCarrying) (Fin 4) = Fin (9 / 2)
   \<and> dround (Fin (9 / 2)) = Fin 5
   \<and> (\<exists>st out. processBody 3 (exampleStretcher 4) exampleCarrying None (\<lambda>c k. 0) 2 (Fin 4) (Fin 1)
                  = Inr (st, out, 5)
                \<and> samplesNeeded st = Fin (9 / 2))
   \<and> dfloor (Fin 4) = Fin 4 \<and> dceil (Fin 4) = Fin 4
   \<and> process 3 (exampleStretcher 4) exampleCarrying None (\<lambda>c k. 0) 2 (Fin 4) (Fin 1)
       = Inl AssertionFailed
   \<and> processFresh 3 (exampleStretcher 4) exampleIdle 2 1
        [muteCall 2 (Fin (3 / 2 - 1 / 2 ^ 52)), muteCall 2 (Fin 4)]
       = Inl AssertionFailed"
proof -
  have "dadd (samplesNeeded exampleCarrying) (Fin 4) = Fin (9 / 2)"
    by (simp add: exampleCarrying_def double_eval)
  moreover have "dround (Fin (9 / 2)) = Fin 5" "dfloor (Fin 4) = Fin 4" "dceil (Fin 4) = Fin 4"
    by (simp_all add: double_eval)
  ultimately show ?thesis
    using example_counts_are_doubles first_call_run second_call_body second_call both_calls_run
    by simp
qed


section \<open>The reset flag of the grains\<close>

lemma resetsFollow_append:
  "resetsFollow prev (past @ [r])
   = (resetsFollow prev past
      \<and> reset r = (\<not> dgreater (position r) (if past = [] then prev else position (last past))))"
  by (induction past arbitrary: prev) auto

lemma resetsFollow_first:
  assumes "resetsFollow NaN past" "past \<noteq> []"
  shows "reset (hd past)"
  using assms by (cases past) (simp_all add: dgreater_def)

text \<open>What each part of the loop does to the record and to the request.\<close>

lemma synthesisePrevious_recorded:
  assumes "synthesisePrevious (recording S) st = Inr st'"
  shows "snd (stretcher st') = snd (stretcher st) \<and> request st' = request st"
  using assms
  by (auto simp add: synthesisePrevious_def recording_def Let_def split: if_splits sum.splits)

lemma specifyNext_recorded:
  assumes "specifyNext (recording S) st isc osc sc = Inr st'"
  shows "snd (stretcher st') = snd (stretcher st) @ [request st']
       \<and> reset (request st') = (\<not> dgreater (position (request st')) (position (request st)))"
  using assms
  by (auto simp add: specifyNext_def recording_def Let_def split: sum.splits)

lemma emitSamples_recorded:
  assumes "emitSamples S st out sc = Inr (st', out', sc')"
  shows "stretcher st' = stretcher st \<and> request st' = request st"
  using assms
  by (auto simp add: emitSamples_def Let_def split: option.splits if_splits)

lemma processLoop_recorded:
  assumes "processLoop rounds (recording S) isc osc g (st, out, sc) = Inr (st', out', sc')"
    and "resetsRecorded st"
  shows "resetsRecorded st'"
  using assms
proof (induction rounds arbitrary: g st out sc)
  case 0
  then show ?case by (simp split: if_splits)
next
  case (Suc rounds)
  show ?case
  proof (cases "deq (double_of_int sc) (dround (samplesNeeded st))")
    case True
    then show ?thesis using Suc.prems by simp
  next
    case False
    obtain st2 where st2:
      "(if g then (case synthesisePrevious (recording S) st of
                     Inl e \<Rightarrow> Inl e
                   | Inr st1 \<Rightarrow> specifyNext (recording S) st1 isc osc sc)
        else Inr st) = Inr st2"
      using Suc.prems(1) False by (auto split: sum.splits)
    obtain nxt where nxt: "emitSamples (recording S) st2 out sc = Inr nxt"
      using Suc.prems(1) False st2 by (auto split: sum.splits)
    have loop: "processLoop rounds (recording S) isc osc True nxt = Inr (st', out', sc')"
      using Suc.prems(1) False st2 nxt by simp
    have i2: "resetsRecorded st2"
    proof (cases g)
      case True
      obtain st1 where st1: "synthesisePrevious (recording S) st = Inr st1"
        "specifyNext (recording S) st1 isc osc sc = Inr st2"
        using st2 True by (auto split: sum.splits)
      show ?thesis
        using synthesisePrevious_recorded [OF st1(1)] specifyNext_recorded [OF st1(2)] Suc.prems(2)
        by (auto simp add: resetsRecorded_def resetsFollow_append)
    next
      case False
      then show ?thesis using st2 Suc.prems(2) by simp
    qed
    obtain st3 out3 sc3 where n3: "nxt = (st3, out3, sc3)" by (cases nxt) auto
    have "resetsRecorded st3"
      using emitSamples_recorded [OF nxt [unfolded n3]] i2 by (simp add: resetsRecorded_def)
    then show ?thesis using Suc.IH [of True st3 out3 sc3] loop n3 by simp
  qed
qed

lemma process_recorded:
  assumes "process rounds (recording S) st pointers out isc osc p = Inr (n, out', st')"
    and "resetsRecorded st"
  shows "resetsRecorded st'"
proof -
  obtain ib where ib: "append (inputBuffer st) isc pointers = Inr ib"
    using assms(1) by (auto simp add: process_def processBody_def split: sum.splits)
  define st0 where
    "st0 = st\<lparr>inputBuffer := ib,
              request := (request st)\<lparr>speed := ddiv (double_of_int isc) osc, pitch := p\<rparr>,
              samplesNeeded := dadd (samplesNeeded st) osc\<rparr>"
  obtain st1 out1 sc1 where
    l: "processLoop rounds (recording S) isc osc False (st0, out, 0) = Inr (st1, out1, sc1)"
    using assms(1) ib by (auto simp add: process_def processBody_def st0_def split: sum.splits)
  have "resetsRecorded st0" using assms(2) by (simp add: resetsRecorded_def st0_def)
  then have "resetsRecorded st1" using processLoop_recorded [OF l] by simp
  moreover have "st' = st1\<lparr>samplesNeeded := dsub (samplesNeeded st1) (double_of_int sc1)\<rparr>"
    using assms(1) ib l by (auto simp add: process_def processBody_def st0_def split: if_splits)
  ultimately show ?thesis by (simp add: resetsRecorded_def)
qed

lemma processAll_recorded:
  assumes "processAll rounds (recording S) st calls = Inr (ns, st')" "resetsRecorded st"
  shows "resetsRecorded st'"
  using assms
proof (induction calls arbitrary: st ns)
  case Nil
  then show ?case by simp
next
  case (Cons c cs)
  obtain n out st1 where
    p: "process rounds (recording S) st (callInputPointers c) (\<lambda>c k. 0)
          (callInputSampleCount c) (callOutputSampleCount c) (callPitch c) = Inr (n, out, st1)"
    using Cons.prems(1) by (auto split: sum.splits)
  obtain ns1 where "processAll rounds (recording S) st1 cs = Inr (ns1, st')"
    using Cons.prems(1) p by (auto split: sum.splits)
  then show ?case using Cons.IH process_recorded [OF p Cons.prems(2)] by simp
qed

lemma processFresh_recorded:
  assumes "processFresh rounds (recording S) (s, []) maxIn channels calls = Inr (ns, st')"
  shows "resetsRecorded st'"
proof -
  obtain st where st: "Stream_new (recording S) (s, []) maxIn channels = Inr st"
    "processAll rounds (recording S) st calls = Inr (ns, st')"
    using assms by (auto simp add: processFresh_def split: sum.splits)
  have "resetsRecorded st" using st(1)
    by (auto simp add: Stream_new_def resetsRecorded_def split: if_splits sum.splits)
  then show ?thesis using processAll_recorded [OF st(2)] by simp
qed

lemma specifyNext_request:
  assumes "specifyNext S st isc osc sc = Inr st'"
  shows "\<exists>pos. grainPosition S st isc osc sc = Inr pos
           \<and> request st' = (request st)\<lparr>reset := \<not> dgreater pos (position (request st)),
                                        position := pos\<rparr>
           \<and> stretcherSpecifyGrain S (request st') (stretcher st)
               = (inputChunk (inputBuffer st'), stretcher st')"
  using assms
  by (auto simp add: specifyNext_def Let_def split: sum.splits prod.splits)

text \<open>
  Claim C8.  Whenever the loop of \<open>process\<close> specifies a grain, it computes the position of
  the grain, sets \<open>request.reset\<close> to true exactly when that position is not greater (\<^verbatim>\<open>>\<close>)
  than the \<open>request.position\<close> of before, stores the position, and calls \<open>specifyGrain\<close> with
  this request.  And in every sequence of calls of \<open>process\<close> on a freshly constructed stream
  that return, the requests that \<open>specifyGrain\<close> was given, in their order, have \<open>reset\<close> set
  exactly where the position is not greater than that of the request before, the one before
  the first being the NaN of the constructor: so the first grain is specified with
  \<open>reset\<close> true.
\<close>

theorem grain_reset:
  "(specifyNext S st isc osc sc = Inr st' \<longrightarrow>
      (\<exists>pos. grainPosition S st isc osc sc = Inr pos
         \<and> request st' = (request st)\<lparr>reset := \<not> dgreater pos (position (request st)),
                                      position := pos\<rparr>
         \<and> stretcherSpecifyGrain S (request st') (stretcher st)
             = (inputChunk (inputBuffer st'), stretcher st')))
   \<and> (processFresh rounds (recording R) (s, []) maxInputSampleCount channels calls = Inr (ns, st2)
        \<longrightarrow> resetsFollow NaN (snd (stretcher st2))
            \<and> (snd (stretcher st2) \<noteq> [] \<longrightarrow> reset (hd (snd (stretcher st2)))))"
proof (intro conjI impI)
  assume "specifyNext S st isc osc sc = Inr st'"
  then show "\<exists>pos. grainPosition S st isc osc sc = Inr pos
         \<and> request st' = (request st)\<lparr>reset := \<not> dgreater pos (position (request st)),
                                      position := pos\<rparr>
         \<and> stretcherSpecifyGrain S (request st') (stretcher st)
             = (inputChunk (inputBuffer st'), stretcher st')"
    by (rule specifyNext_request)
next
  assume run: "processFresh rounds (recording R) (s, []) maxInputSampleCount channels calls
                 = Inr (ns, st2)"
  show "resetsFollow NaN (snd (stretcher st2))"
    using processFresh_recorded [OF run] by (simp add: resetsRecorded_def)
  then show "reset (hd (snd (stretcher st2)))" if "snd (stretcher st2) \<noteq> []"
    using that by (rule resetsFollow_first)
qed

text \<open>A call on a fresh stream whose stretcher records its requests.\<close>

lemma Stream_new_recording:
  "Stream_new (recording (exampleStretcher 4)) (exampleIdle, []) 2 1
   = Inr \<lparr>streamChannelCount = 1, inputBuffer = exampleFullWindow\<lparr>bufEnd := 0\<rparr>,
          stretcher = (exampleIdle, []), request = exampleIdle,
          outputChunk = \<lparr>chunkData = \<lambda>k. 0, frameCount = 0, chunkChannelStride = 0,
                          request0 = None, request1 = None\<rparr>,
          outputChunkConsumed = 0, samplesNeeded = Fin 0\<rparr>"
  by (simp add: Stream_new_def recording_def InputBuffer_new_def exampleStretcher_def int32_def
      replicate_numeral exampleFullWindow_def exampleIdle_def)

lemma recorded_loop:
  "map_sum id (\<lambda>(st, out, n). (snd (stretcher st), n))
     (processBody 4 (recording (exampleStretcher 4))
        \<lparr>streamChannelCount = 1, inputBuffer = exampleFullWindow\<lparr>bufEnd := 0\<rparr>,
          stretcher = (exampleIdle, []), request = exampleIdle,
          outputChunk = \<lparr>chunkData = \<lambda>k. 0, frameCount = 0, chunkChannelStride = 0,
                          request0 = None, request1 = None\<rparr>,
          outputChunkConsumed = 0, samplesNeeded = Fin 0\<rparr> None (\<lambda>c k. 0) 2 (Fin 8) (Fin 1))
   = Inr (exampleGrains, 8)"
  apply (simp add: processBody_def append_waiting)
  apply (simp add: double_eval exampleIdle_def)
  apply (simp add: loop_eval double_eval recording_def exampleStretcher_def exampleFullWindow_def
      int32_def)
  apply (simp add: exampleGrains_def)
  done

lemma recorded_body:
  "\<exists>st out. processBody 4 (recording (exampleStretcher 4))
        \<lparr>streamChannelCount = 1, inputBuffer = exampleFullWindow\<lparr>bufEnd := 0\<rparr>,
          stretcher = (exampleIdle, []), request = exampleIdle,
          outputChunk = \<lparr>chunkData = \<lambda>k. 0, frameCount = 0, chunkChannelStride = 0,
                          request0 = None, request1 = None\<rparr>,
          outputChunkConsumed = 0, samplesNeeded = Fin 0\<rparr> None (\<lambda>c k. 0) 2 (Fin 8) (Fin 1)
       = Inr (st, out, 8) \<and> snd (stretcher st) = exampleGrains"
  using recorded_loop
  by (cases "processBody 4 (recording (exampleStretcher 4))
        \<lparr>streamChannelCount = 1, inputBuffer = exampleFullWindow\<lparr>bufEnd := 0\<rparr>,
          stretcher = (exampleIdle, []), request = exampleIdle,
          outputChunk = \<lparr>chunkData = \<lambda>k. 0, frameCount = 0, chunkChannelStride = 0,
                          request0 = None, request1 = None\<rparr>,
          outputChunkConsumed = 0, samplesNeeded = Fin 0\<rparr> None (\<lambda>c k. 0) 2 (Fin 8) (Fin 1)") auto

lemma eight_eval: "deq (double_of_int 8) (dfloor (Fin 8))"
  by (simp add: double_eval)

lemma recorded_run:
  "\<exists>st. processFresh 4 (recording (exampleStretcher 4)) (exampleIdle, []) 2 1 [muteCall 2 (Fin 8)]
          = Inr ([8], st)
        \<and> snd (stretcher st) = exampleGrains"
proof -
  obtain st out where b: "processBody 4 (recording (exampleStretcher 4))
        \<lparr>streamChannelCount = 1, inputBuffer = exampleFullWindow\<lparr>bufEnd := 0\<rparr>,
          stretcher = (exampleIdle, []), request = exampleIdle,
          outputChunk = \<lparr>chunkData = \<lambda>k. 0, frameCount = 0, chunkChannelStride = 0,
                          request0 = None, request1 = None\<rparr>,
          outputChunkConsumed = 0, samplesNeeded = Fin 0\<rparr> None (\<lambda>c k. 0) 2 (Fin 8) (Fin 1)
       = Inr (st, out, 8)" and g: "snd (stretcher st) = exampleGrains"
    using recorded_body by blast
  show ?thesis
    apply (simp only: processFresh_def Stream_new_recording muteCall_def processAll.simps sum.case
        ProcessCall.simps prod.case process_def b eight_eval)
    apply (simp add: g)
    done
qed

lemma specify_example:
  "specifyNext (exampleStretcher 4) exampleCarrying 2 (Fin 4) 3
   = Inr (exampleCarrying\<lparr>request := (request exampleCarrying)\<lparr>reset := False, position := Fin (- (5 / 2))\<rparr>,
                            stretcher := (request exampleCarrying)\<lparr>reset := False, position := Fin (- (5 / 2))\<rparr>,
                            inputBuffer := (inputBuffer exampleCarrying)\<lparr>inputChunk := \<lparr>chunkBegin = - 7, chunkEnd = 1\<rparr>\<rparr>\<rparr>)"
  "grainPosition (exampleStretcher 4) exampleCarrying 2 (Fin 4) 3 = Inr (Fin (- (5 / 2)))"
   apply (simp_all add: specifyNext_def grainPosition_def endPosition_def tdiv_def exampleCarrying_def exampleStretcher_def exampleFullWindow_def int32_def double_eval)
  done

text \<open>
  The theorem at two examples.  On the stream that carries a grain at the position \<open>-4\<close>, a
  grain specified while 3 of 4 output samples are emitted has the position \<open>-2.5\<close>, which is
  greater, and \<open>reset\<close> is false.  And the call \<open>process(nullptr, out, 2, 8.0)\<close> on a fresh
  stream specifies three grains, at \<open>-4\<close>, \<open>-4\<close> and \<open>-3\<close>: the first two with \<open>reset\<close> true, the
  third with \<open>reset\<close> false.
\<close>

theorem grain_reset_witness:
  "(\<exists>st'. specifyNext (exampleStretcher 4) exampleCarrying 2 (Fin 4) 3 = Inr st'
       \<and> grainPosition (exampleStretcher 4) exampleCarrying 2 (Fin 4) 3 = Inr (Fin (- (5 / 2)))
       \<and> position (request exampleCarrying) = Fin (- 4)
       \<and> dgreater (Fin (- (5 / 2))) (Fin (- 4))
       \<and> request st' = (request exampleCarrying)\<lparr>reset := False, position := Fin (- (5 / 2))\<rparr>)
   \<and> (\<exists>st. processFresh 4 (recording (exampleStretcher 4)) (exampleIdle, []) 2 1
               [muteCall 2 (Fin 8)] = Inr ([8], st)
          \<and> snd (stretcher st) = exampleGrains
          \<and> resetsFollow NaN exampleGrains \<and> reset (hd exampleGrains))"
proof -
  obtain st where run: "processFresh 4 (recording (exampleStretcher 4)) (exampleIdle, []) 2 1
               [muteCall 2 (Fin 8)] = Inr ([8], st)" and g: "snd (stretcher st) = exampleGrains"
    using recorded_run by blast
  have ne: "exampleGrains \<noteq> []" by (simp add: exampleGrains_def)
  have second: "resetsFollow NaN exampleGrains \<and> reset (hd exampleGrains)"
    using grain_reset [THEN conjunct2, rule_format, OF run] g ne by simp
  obtain pos where first: "grainPosition (exampleStretcher 4) exampleCarrying 2 (Fin 4) 3 = Inr pos"
    "request (exampleCarrying\<lparr>request := (request exampleCarrying)\<lparr>reset := False, position := Fin (- (5 / 2))\<rparr>,
                            stretcher := (request exampleCarrying)\<lparr>reset := False, position := Fin (- (5 / 2))\<rparr>,
                            inputBuffer := (inputBuffer exampleCarrying)\<lparr>inputChunk := \<lparr>chunkBegin = - 7, chunkEnd = 1\<rparr>\<rparr>\<rparr>)
     = (request exampleCarrying)\<lparr>reset := \<not> dgreater pos (position (request exampleCarrying)), position := pos\<rparr>"
    using grain_reset [THEN conjunct1, rule_format, OF specify_example(1)] by blast
  have "position (request exampleCarrying) = Fin (- 4)" "dgreater (Fin (- (5 / 2))) (Fin (- 4))"
    by (simp_all add: exampleCarrying_def dgreater_def)
  then show ?thesis
    using run g second specify_example first by simp
qed


end
